theory Spec2Isabelle
  imports Complex_Main "HOL-Library.Sublist"
begin

section \<open>JavaScript values\<close>

subsection \<open>Strings\<close>

text \<open>
  A JavaScript string is a sequence of UTF-16 code units: a list of numbers, each below
  \<open>2^16\<close> in a real string. \<open>length\<close>, \<open>includes\<close> and a regular expression without the
  \<open>u\<close> flag work on code units, so the Arabic of the corpus and every other script are
  strings of the model. \<open>js\<close> writes a string of ASCII characters.
\<close>

type_synonym code_unit = nat

type_synonym jsstring = "code_unit list"

definition js :: "string \<Rightarrow> jsstring" where
  "js s = map of_char s"

definition is_word_char :: "code_unit \<Rightarrow> bool" where
  \<comment> \<open>the class \<open>\w\<close>: \<open>[A-Za-z0-9_]\<close>\<close>
  "is_word_char c =
     (let n = int c
      in (48 \<le> n \<and> n \<le> 57) \<or> (65 \<le> n \<and> n \<le> 90) \<or> n = 95 \<or> (97 \<le> n \<and> n \<le> 122))"

definition is_space_char :: "code_unit \<Rightarrow> bool" where
  \<comment> \<open>the class \<open>\s\<close>: TAB, LF, VT, FF, CR, SPACE, U+00A0, U+1680, U+2000 to U+200A,
      U+2028, U+2029, U+202F, U+205F, U+3000, U+FEFF\<close>
  "is_space_char c =
     (let n = int c
      in (9 \<le> n \<and> n \<le> 13) \<or> n = 32 \<or> n = 160 \<or> n = 5760 \<or> (8192 \<le> n \<and> n \<le> 8202)
         \<or> n = 8232 \<or> n = 8233 \<or> n = 8239 \<or> n = 8287 \<or> n = 12288 \<or> n = 65279)"

text \<open>
  \<open>String.prototype.toLowerCase\<close> is a built-in of the platform, driven by the Unicode
  tables (it maps U+212A, the Kelvin sign, to \<open>k\<close>, and U+0130 to two code units). It is
  not part of the program: every function that calls it takes it as its first argument,
  named \<open>toLowerCase\<close>, and the properties below hold for every such function. On a string
  of ASCII characters the built-in is \<open>toLowerCase_ascii\<close>, which the examples use on such
  strings only.
\<close>

definition toLowerCase_ascii :: "jsstring \<Rightarrow> jsstring" where
  "toLowerCase_ascii s = map (\<lambda>c. if 65 \<le> c \<and> c \<le> 90 then c + 32 else c) s"

definition str_includes :: "jsstring \<Rightarrow> jsstring \<Rightarrow> bool" where
  \<comment> \<open>\<open>s.includes(k)\<close>: \<open>k\<close> occurs in \<open>s\<close> as a contiguous block\<close>
  "str_includes s k = sublist k s"

fun digits :: "nat \<Rightarrow> jsstring" where
  \<comment> \<open>the decimal digits of a natural number; \<open>48\<close> is the digit zero\<close>
  "digits n = (if n < 10 then [48 + n] else digits (n div 10) @ [48 + n mod 10])"

declare digits.simps [simp del]

definition string_of_int :: "int \<Rightarrow> jsstring" where
  \<comment> \<open>what a template literal prints for an integral number\<close>
  "string_of_int i = (if i < 0 then js ''-'' @ digits (nat (- i)) else digits (nat i))"

subsection \<open>Numbers\<close>

text \<open>
  A JavaScript number is an IEEE 754 binary64. The model is the rational value of a
  finite double, and every arithmetic operation rounds its exact result to the nearest
  double, ties to the even significand: 53 bits of precision, subnormal from \<open>2^-1074\<close>.
  \<open>ilog2 a\<close> is the exponent of the leading bit of \<open>a > 0\<close>. Overflow to \<open>Infinity\<close>,
  \<open>NaN\<close> and the sign of zero are outside the model.
\<close>

type_synonym number = rat

fun bit_length :: "nat \<Rightarrow> int" where
  "bit_length n = (if n = 0 then 0 else 1 + bit_length (n div 2))"

declare bit_length.simps [simp del]

definition pow2 :: "int \<Rightarrow> rat" where
  "pow2 k = (if 0 \<le> k then 2 ^ nat k else 1 / 2 ^ nat (- k))"

definition ilog2 :: "rat \<Rightarrow> int" where
  "ilog2 a =
     (if 1 \<le> a then bit_length (nat \<lfloor>a\<rfloor>) - 1 else - bit_length (nat (\<lceil>1 / a\<rceil> - 1)))"

definition round_half_even :: "rat \<Rightarrow> int" where
  "round_half_even y =
     (let d = \<lfloor>y\<rfloor>; f = y - of_int d
      in if f < 1 / 2 then d else if 1 / 2 < f then d + 1 else if even d then d else d + 1)"

definition round_double :: "rat \<Rightarrow> number" where
  "round_double x =
     (if x = 0 then 0
      else let a = \<bar>x\<bar>;
               q = max (ilog2 a - 52) (- 1074);
               n = round_half_even (a / pow2 q)
           in sgn x * of_int n * pow2 q)"

definition fadd :: "number \<Rightarrow> number \<Rightarrow> number" where
  "fadd x y = round_double (x + y)"

definition fsub :: "number \<Rightarrow> number \<Rightarrow> number" where
  "fsub x y = round_double (x - y)"

definition fmul :: "number \<Rightarrow> number \<Rightarrow> number" where
  "fmul x y = round_double (x * y)"

definition fdiv :: "number \<Rightarrow> number \<Rightarrow> number" where
  "fdiv x y = round_double (x / y)"

section \<open>The corpus\<close>

text \<open>
  The interfaces \<open>QuranVerse\<close> and \<open>QuranSurah\<close> of \<open>types.ts\<close>. The fields carry a
  prefix, since \<open>id\<close>, \<open>text\<close> and \<open>type\<close> are taken in Isabelle and both interfaces have
  an \<open>id\<close> and a \<open>translation\<close>.
\<close>

record QuranVerse =
  v_id :: int
  v_text :: jsstring
  v_translation :: jsstring

record QuranSurah =
  s_id :: int
  s_name :: jsstring
  s_transliteration :: jsstring
  s_translation :: jsstring
  s_type :: jsstring
  s_total_verses :: int
  s_verses :: "QuranVerse list"

section \<open>Keyword extractor\<close>

definition stopWords :: "jsstring list" where
  "stopWords = map js
    [''apa'', ''siapa'', ''dimana'', ''kapan'', ''mengapa'', ''bagaimana'',
     ''yang'', ''dan'', ''atau'', ''dari'', ''ke'', ''di'', ''pada'', ''dengan'',
     ''untuk'', ''tentang'', ''seperti'', ''adalah'', ''itu'', ''ini'', ''saya'',
     ''kamu'', ''kita'', ''mereka'', ''dalam'', ''oleh'', ''the'', ''what'', ''who'',
     ''where'', ''when'', ''why'', ''how'', ''is'', ''are'', ''and'', ''or'', ''from'',
     ''to'', ''in'', ''on'', ''with'', ''for'', ''about'', ''like'', ''that'', ''this'']"

definition replace_punct :: "jsstring \<Rightarrow> jsstring" where
  \<comment> \<open>\<open>.replace(/[^\w\s]/g, ' ')\<close>; \<open>32\<close> is the space\<close>
  "replace_punct s = map (\<lambda>c. if is_word_char c \<or> is_space_char c then c else 32) s"

text \<open>
  \<open>.split(/\s+/)\<close> cuts at every maximal run of white space. A string that starts or
  ends with white space gives an empty first or last piece, and the empty string gives
  one empty piece.
\<close>

function split_ws :: "jsstring \<Rightarrow> jsstring list" where
  "split_ws s =
     (let piece = takeWhile (\<lambda>c. \<not> is_space_char c) s;
          rest = dropWhile (\<lambda>c. \<not> is_space_char c) s
      in if rest = [] then [piece] else piece # split_ws (dropWhile is_space_char rest))"
  by pat_completeness auto
termination
proof (relation "measure length")
  show "wf (measure length)" by simp
next
  fix s piece rest
  assume rest: "rest = dropWhile (\<lambda>c. \<not> is_space_char c) s" and ne: "rest \<noteq> []"
  from ne obtain c cs where cs: "rest = c # cs" by (cases rest) auto
  have "length (dropWhile is_space_char rest) \<le> length rest"
    by (rule length_dropWhile_le)
  moreover have "is_space_char c"
  proof -
    have "dropWhile (\<lambda>c. \<not> is_space_char c) s \<noteq> []"
      using rest ne by simp
    then have "\<not> \<not> is_space_char (hd (dropWhile (\<lambda>c. \<not> is_space_char c) s))"
      by (rule hd_dropWhile)
    moreover have "hd (dropWhile (\<lambda>c. \<not> is_space_char c) s) = c"
      using rest cs by (metis list.sel(1))
    ultimately show ?thesis by simp
  qed
  then have "length (dropWhile is_space_char rest) \<le> length cs"
    using cs by (simp add: length_dropWhile_le)
  moreover have "length rest \<le> length s"
    unfolding rest by (rule length_dropWhile_le)
  ultimately show "(dropWhile is_space_char rest, s) \<in> measure length"
    using cs by simp
qed

declare split_ws.simps [simp del]

definition extractKeywords :: "(jsstring \<Rightarrow> jsstring) \<Rightarrow> jsstring \<Rightarrow> jsstring list" where
  "extractKeywords toLowerCase question =
     filter (\<lambda>word. length word > 2 \<and> word \<notin> set stopWords)
       (split_ws (replace_punct (toLowerCase question)))"

section \<open>Relevance ranker\<close>

text \<open>
  The objects pushed on \<open>relevantVerses\<close>, and the objects returned, which spread the
  former and add \<open>reference\<close>.
\<close>

record scored_verse =
  surah_id :: int
  surah_name :: jsstring
  surah_name_arabic :: jsstring
  verse_id :: int
  verse_text_arabic :: jsstring
  verse_text_translation :: jsstring
  score :: nat

record ranked_verse = scored_verse +
  reference :: jsstring

definition keyword_score :: "jsstring list \<Rightarrow> jsstring \<Rightarrow> nat" where
  \<comment> \<open>the loop over \<open>keywords\<close>, from \<open>score = 0\<close>\<close>
  "keyword_score keywords verseText =
     fold (\<lambda>keyword score. if str_includes verseText keyword then score + length keyword else score)
       keywords 0"

fun scan_verses ::
    "(jsstring \<Rightarrow> jsstring) \<Rightarrow> QuranSurah \<Rightarrow> jsstring list \<Rightarrow> QuranVerse list \<Rightarrow> scored_verse list" where
  "scan_verses toLowerCase surah keywords [] = []"
| "scan_verses toLowerCase surah keywords (verse # rest) =
     (if v_translation verse = [] then scan_verses toLowerCase surah keywords rest
      else
        let verseText = toLowerCase (v_translation verse);
            verseArabic = v_text verse;
            score = keyword_score keywords verseText
        in if score > 0
           then \<lparr>surah_id = s_id surah, surah_name = s_name surah,
                 surah_name_arabic = s_name surah, verse_id = v_id verse,
                 verse_text_arabic = verseArabic,
                 verse_text_translation = v_translation verse, score = score\<rparr>
                # scan_verses toLowerCase surah keywords rest
           else scan_verses toLowerCase surah keywords rest)"

fun scan_surahs ::
    "(jsstring \<Rightarrow> jsstring) \<Rightarrow> QuranSurah list \<Rightarrow> jsstring list \<Rightarrow> scored_verse list" where
  "scan_surahs toLowerCase [] keywords = []"
| "scan_surahs toLowerCase (surah # rest) keywords =
     scan_verses toLowerCase surah keywords (s_verses surah) @ scan_surahs toLowerCase rest keywords"

text \<open>
  \<open>.sort((a, b) => b.score - a.score)\<close>: \<open>Array.prototype.sort\<close> is stable, so the
  result is the one stable arrangement by descending score, which \<^const>\<open>sort_key\<close>
  (a stable insertion sort) computes on the negated score.
\<close>

definition sort_by_score :: "scored_verse list \<Rightarrow> scored_verse list" where
  "sort_by_score vs = sort_key (\<lambda>v. - int (score v)) vs"

definition slice0 :: "int \<Rightarrow> 'a list \<Rightarrow> 'a list" where
  \<comment> \<open>\<open>.slice(0, limit)\<close>: a negative end counts from the end of the array\<close>
  "slice0 limit xs =
     (if limit < 0 then take (nat (max (int (length xs) + limit) 0)) xs
      else take (nat (min limit (int (length xs)))) xs)"

definition add_reference :: "scored_verse \<Rightarrow> ranked_verse" where
  "add_reference v =
     scored_verse.extend v
       \<lparr>reference = surah_name v @ js '' ('' @ string_of_int (surah_id v) @ js '':''
                      @ string_of_int (verse_id v) @ js '')''\<rparr>"

definition findRelevantVerses ::
    "(jsstring \<Rightarrow> jsstring) \<Rightarrow> QuranSurah list \<Rightarrow> jsstring list \<Rightarrow> int \<Rightarrow> ranked_verse list" where
  "findRelevantVerses toLowerCase quranData keywords limit =
     map add_reference (slice0 limit (sort_by_score (scan_surahs toLowerCase quranData keywords)))"

section \<open>Usage meter\<close>

text \<open>
  A decimal literal of the source, such as \<open>0.293\<close>, denotes the double nearest to it;
  the integers written in the source are doubles themselves.
\<close>

definition INPUT_TOKEN_NEURON_RATE :: number where
  "INPUT_TOKEN_NEURON_RATE = fdiv 26668 1000000"

definition OUTPUT_TOKEN_NEURON_RATE :: number where
  "OUTPUT_TOKEN_NEURON_RATE = fdiv 204805 1000000"

definition calculateNeuronsConsumed :: "number \<Rightarrow> number \<Rightarrow> number" where
  "calculateNeuronsConsumed promptTokens completionTokens =
     (let inputNeurons = fmul promptTokens INPUT_TOKEN_NEURON_RATE;
          outputNeurons = fmul completionTokens OUTPUT_TOKEN_NEURON_RATE
      in fadd inputNeurons outputNeurons)"

text \<open>
  \<open>Number.prototype.toFixed(f)\<close> works on the exact value of the double: the sign, then
  the integer \<open>n\<close> nearest to \<open>|x| * 10^f\<close> (the larger one of two equally near), written
  in decimal, padded with zeros to \<open>f + 1\<close> digits, with the point before the last \<open>f\<close>
  digits. ECMAScript prints values of magnitude \<open>10^21\<close> or more in exponent notation
  instead; that branch is not modelled, and the function is only meant below it.
\<close>

definition toFixed :: "nat \<Rightarrow> number \<Rightarrow> jsstring" where
  "toFixed f x =
     (let s = (if x < 0 then js ''-'' else []);
          n = nat \<lfloor>\<bar>x\<bar> * 10 ^ f + 1 / 2\<rfloor>;
          m = digits n;
          m = (if f = 0 then m
               else let m = replicate (f + 1 - length m) 48 @ m;
                        k = length m
                    in take (k - f) m @ js ''.'' @ drop (k - f) m)
      in s @ m)"

definition formatNeurons :: "number \<Rightarrow> jsstring" where
  "formatNeurons neurons =
     (if neurons < 1000 then toFixed 2 neurons
      else if neurons < 1000000 then toFixed 2 (fdiv neurons 1000) @ js ''k''
      else toFixed 4 (fdiv neurons 1000000) @ js ''M'')"

record CostEstimate =
  inputCost :: number
  outputCost :: number
  totalCost :: number

definition estimateCost :: "number \<Rightarrow> number \<Rightarrow> CostEstimate" where
  "estimateCost promptTokens completionTokens =
     (let INPUT_COST_PER_TOKEN = fdiv (round_double (293 / 1000)) 1000000;
          OUTPUT_COST_PER_TOKEN = fdiv (round_double (2253 / 1000)) 1000000
      in \<lparr>inputCost = fmul promptTokens INPUT_COST_PER_TOKEN,
          outputCost = fmul completionTokens OUTPUT_COST_PER_TOKEN,
          totalCost = fadd (fmul promptTokens INPUT_COST_PER_TOKEN)
                        (fmul completionTokens OUTPUT_COST_PER_TOKEN)\<rparr>)"

definition estimateTokens :: "jsstring \<Rightarrow> number" where
  "estimateTokens txt = of_int \<lceil>fdiv (of_nat (length txt)) 4\<rceil>"

text \<open>
  The key-value namespace. An entry is the number that the stored text denotes and the
  \<open>expirationTtl\<close> of its write, in seconds. The source stores \<open>newTotal.toString()\<close>,
  a text that \<open>parseFloat\<close> reads back as \<open>newTotal\<close>: the model stores \<open>newTotal\<close>. A read
  goes through \<open>parseFloat\<close>, which rounds what the text denotes to a double and so returns
  a stored double as it is. A stored text is never empty, so
  \<open>stored ? parseFloat(stored) : 0\<close> is \<open>0\<close> exactly when the key is absent. Whether
  \<open>get\<close> and \<open>put\<close> raise is decided outside the program: two flags of the namespace say
  so. The passing of time, which removes expired entries, is not modelled.
\<close>

record KVNamespace =
  kv_entries :: "jsstring \<rightharpoonup> number \<times> nat"
  kv_get_throws :: bool
  kv_put_throws :: bool

datatype kv_error = KVError

definition kv_get :: "KVNamespace \<Rightarrow> jsstring \<Rightarrow> kv_error + number option" where
  "kv_get ns key =
     (if kv_get_throws ns then Inl KVError else Inr (map_option fst (kv_entries ns key)))"

definition kv_put :: "KVNamespace \<Rightarrow> jsstring \<Rightarrow> number \<Rightarrow> nat \<Rightarrow> kv_error + KVNamespace" where
  "kv_put ns key v expirationTtl =
     (if kv_put_throws ns then Inl KVError
      else Inr (ns\<lparr>kv_entries := (kv_entries ns)(key \<mapsto> (v, expirationTtl))\<rparr>))"

definition parseFloat :: "number \<Rightarrow> number" where
  \<comment> \<open>of the number that a stored text denotes\<close>
  "parseFloat v = round_double v"

datatype role = System | User | Assistant

record ChatMessage =
  role :: role
  content :: jsstring

record AIUsage =
  prompt_tokens :: number
  completion_tokens :: number
  total_tokens :: number

text \<open>The gateway's answer (\<open>AIResponse\<close>); every field is optional.\<close>

record AIResponse =
  resp_response :: "jsstring option"
  resp_content :: "jsstring option"
  resp_answer :: "jsstring option"
  resp_usage :: "AIUsage option"

record AIRunInput =
  messages :: "ChatMessage list"
  max_tokens :: nat
  temperature :: number

text \<open>
  \<open>Env\<close>. \<open>AI\<close> stands for \<open>env.AI.run\<close>: given the model identifier and the input it
  returns the gateway's answer, or \<open>Inl\<close> with the error's message when the call raises.
\<close>

record Env =
  AI :: "jsstring \<Rightarrow> AIRunInput \<Rightarrow> jsstring + AIResponse"
  NEURON_LIMITER :: KVNamespace
  RATE_LIMITER :: KVNamespace

record LimitCheck =
  allowed :: bool
  consumed :: number
  remaining :: number
  dailyLimit :: number
  message :: "jsstring option"

definition DAILY_NEURON_LIMIT :: number where
  "DAILY_NEURON_LIMIT = 10000"

text \<open>
  \<open>now\<close> is what \<open>new Date().toISOString()\<close> returns at the call; \<open>.split('T')[0]\<close>
  is its part before the first \<open>T\<close>, the code unit \<open>84\<close>. The function returns its result
  and the environment as the call leaves it.
\<close>

definition checkAndUpdateNeuronLimit ::
    "Env \<Rightarrow> jsstring \<Rightarrow> number \<Rightarrow> number \<Rightarrow> LimitCheck \<times> Env" where
  "checkAndUpdateNeuronLimit env now promptTokens completionTokens =
     (let today = takeWhile (\<lambda>c. c \<noteq> 84) now;
          KV_KEY = js ''neuron_usage:'' @ today;
          consumedNeurons = calculateNeuronsConsumed promptTokens completionTokens;
          currentNeurons =
            (case kv_get (NEURON_LIMITER env) KV_KEY of
               Inl e \<Rightarrow> 0
             | Inr stored \<Rightarrow> (case stored of None \<Rightarrow> 0 | Some v \<Rightarrow> parseFloat v));
          newTotal = fadd currentNeurons consumedNeurons
      in if newTotal > DAILY_NEURON_LIMIT
         then (\<lparr>allowed = False, consumed = consumedNeurons,
                 remaining = max 0 (fsub DAILY_NEURON_LIMIT currentNeurons),
                 dailyLimit = DAILY_NEURON_LIMIT,
                 message = Some (js ''Batas harian neuron terlampaui. Tersisa: ''
                                 @ formatNeurons (fsub DAILY_NEURON_LIMIT currentNeurons)
                                 @ js '' neurons'')\<rparr>, env)
         else
           let env' = (case kv_put (NEURON_LIMITER env) KV_KEY newTotal 86400 of
                         Inl e \<Rightarrow> env
                       | Inr ns \<Rightarrow> env\<lparr>NEURON_LIMITER := ns\<rparr>)
           in (\<lparr>allowed = True, consumed = consumedNeurons,
                 remaining = fsub DAILY_NEURON_LIMIT newTotal,
                 dailyLimit = DAILY_NEURON_LIMIT, message = None\<rparr>, env'))"

text \<open>
  The day's key, and what the function takes as the current total under it: the stored
  number, and \<open>0\<close> when the key is absent or the read raises.
\<close>

definition usage_key :: "jsstring \<Rightarrow> jsstring" where
  "usage_key now = js ''neuron_usage:'' @ takeWhile (\<lambda>c. c \<noteq> 84) now"

definition current_total :: "Env \<Rightarrow> jsstring \<Rightarrow> number" where
  "current_total env now =
     (case kv_get (NEURON_LIMITER env) (usage_key now) of
        Inl e \<Rightarrow> 0
      | Inr stored \<Rightarrow> (case stored of None \<Rightarrow> 0 | Some v \<Rightarrow> parseFloat v))"

text \<open>
  A run of calls, one after the other on the same store. Each call comes with the time
  of the call, whether the store's \<open>get\<close> and \<open>put\<close> raise during it, and the two token
  counts.
\<close>

type_synonym limit_call = "jsstring \<times> bool \<times> bool \<times> number \<times> number"

fun run_checks :: "Env \<Rightarrow> limit_call list \<Rightarrow> LimitCheck list \<times> Env" where
  "run_checks env [] = ([], env)"
| "run_checks env ((now, get_throws, put_throws, promptTokens, completionTokens) # calls) =
     (let ns = (NEURON_LIMITER env)\<lparr>kv_get_throws := get_throws, kv_put_throws := put_throws\<rparr>;
          (r, env') = checkAndUpdateNeuronLimit (env\<lparr>NEURON_LIMITER := ns\<rparr>) now
                        promptTokens completionTokens;
          (rs, env'') = run_checks env' calls
      in (r # rs, env''))"

definition stored_totals :: "Env \<Rightarrow> (jsstring \<rightharpoonup> number \<times> nat)" where
  "stored_totals env = kv_entries (NEURON_LIMITER env)"

section \<open>Prompt builder\<close>

fun join :: "jsstring \<Rightarrow> jsstring list \<Rightarrow> jsstring" where
  \<comment> \<open>\<open>Array.prototype.join\<close>\<close>
  "join sep [] = []"
| "join sep [x] = x"
| "join sep (x # y # ys) = x @ sep @ join sep (y # ys)"

text \<open>The four templates of \<open>createQuranPrompt\<close> and the two of its verse blocks.\<close>

definition prompt_plain_id :: "jsstring \<Rightarrow> jsstring" where
  \<open>prompt_plain_id question =
     js (''Anda adalah asisten AI khusus Al-Quran yang sangat berpengetahuan.\<newline>'' @
         ''      Anda hanya menjawab pertanyaan berdasarkan Al-Quran dan tafsir yang sahih.\<newline>'' @
         ''      Jika tidak tahu, katakan dengan jujur.\<newline>'' @
         ''\<newline>'' @
         ''      Pertanyaan: "'') @
     question @
     js (''"\<newline>'' @
         ''\<newline>'' @
         ''      Berikan jawaban yang:\<newline>'' @
         ''      1. Berdasarkan pengetahuan Al-Quran yang sahih\<newline>'' @
         ''      2. Jelas dan mudah dipahami\<newline>'' @
         ''      3. Menggunakan bahasa Indonesia yang baik\<newline>'' @
         ''      4. Sertakan referensi ayat yang relevan jika ada\<newline>'' @
         ''      5. Jika perlu, tambahkan tafsir singkat\<newline>'' @
         ''\<newline>'' @
         ''      Jawaban:'')\<close>

definition prompt_plain_en :: "jsstring \<Rightarrow> jsstring" where
  \<open>prompt_plain_en question =
     js (''You are a knowledgeable Quran AI assistant.\<newline>'' @
         ''      You only answer questions based on the Quran and authentic interpretations.\<newline>'' @
         ''      If you don't know, say so honestly.\<newline>'' @
         ''\<newline>'' @
         ''      Question: "'') @
     question @
     js (''"\<newline>'' @
         ''\<newline>'' @
         ''      Provide an answer that:\<newline>'' @
         ''      1. Is based on authentic Quran knowledge\<newline>'' @
         ''      2. Clear and understandable\<newline>'' @
         ''      3. Uses proper English\<newline>'' @
         ''      4. Include relevant verse references if available\<newline>'' @
         ''      5. Add brief interpretation if needed\<newline>'' @
         ''\<newline>'' @
         ''      Answer:'')\<close>

definition verse_block_id :: "ranked_verse \<Rightarrow> jsstring" where
  \<open>verse_block_id v =
     js ''Surah '' @
     (if surah_name_arabic v = [] then surah_name v else surah_name_arabic v) @
     js '' ('' @
     string_of_int (surah_id v) @
     js '':'' @
     string_of_int (verse_id v) @
     js ('')\<newline>'' @
         ''Ayat Arab: "'') @
     verse_text_arabic v @
     js (''"\<newline>'' @
         ''Terjemahan Indonesia: "'') @
     verse_text_translation v @
     js ''"''\<close>

definition verse_block_en :: "ranked_verse \<Rightarrow> jsstring" where
  \<open>verse_block_en v =
     js ''Surah '' @
     (if surah_name_arabic v = [] then surah_name v else surah_name_arabic v) @
     js '' ('' @
     string_of_int (surah_id v) @
     js '':'' @
     string_of_int (verse_id v) @
     js ('')\<newline>'' @
         ''Arabic Verse: "'') @
     verse_text_arabic v @
     js (''"\<newline>'' @
         ''English Translation: "'') @
     verse_text_translation v @
     js ''"''\<close>

definition prompt_verses_id :: "jsstring \<Rightarrow> jsstring \<Rightarrow> jsstring" where
  \<open>prompt_verses_id question versesContext =
     js (''Anda adalah asisten AI khusus Al-Quran yang sangat berpengetahuan.\<newline>'' @
         ''Tugas Anda hanya menjawab berdasarkan ayat-ayat Al-Quran di bawah ini:\<newline>'' @
         ''\<newline>'' @
         ''Pertanyaan: "'') @
     question @
     js (''"\<newline>'' @
         ''\<newline>'' @
         ''AYAT-AL-QURAN YANG RELEVAN:\<newline>'') @
     versesContext @
     js (''\<newline>'' @
         ''\<newline>'' @
         ''INSTRUKSI JAWABAN:\<newline>'' @
         ''1. Jawab HANYA berdasarkan ayat-ayat di atas\<newline>'' @
         ''2. Setiap kali menyebut ayat, TULISKAN teks Arab-nya\<newline>'' @
         ''3. Di bawah teks Arab, berikan terjemahannya\<newline>'' @
         ''4. Gunakan format:\<newline>'' @
         ''   [Nama Surah Ayat X]\<newline>'' @
         ''   [Teks Arab]\<newline>'' @
         ''   [Terjemahan]\<newline>'' @
         ''5. Jawaban maksimal 3 paragraf\<newline>'' @
         ''6. Jika tidak ada di ayat-ayat ini, katakan "Berdasarkan ayat-ayat yang tersedia..."\<newline>'' @
         ''\<newline>'' @
         ''JAWABAN:'')\<close>

definition prompt_verses_en :: "jsstring \<Rightarrow> jsstring \<Rightarrow> jsstring" where
  \<open>prompt_verses_en question versesContext =
     js (''You are a knowledgeable Quran AI assistant.\<newline>'' @
         ''You must answer ONLY based on the Quran verses below:\<newline>'' @
         ''\<newline>'' @
         ''Question: "'') @
     question @
     js (''"\<newline>'' @
         ''\<newline>'' @
         ''RELEVANT QURAN VERSES:\<newline>'') @
     versesContext @
     js (''\<newline>'' @
         ''\<newline>'' @
         ''ANSWER INSTRUCTIONS:\<newline>'' @
         ''1. Answer ONLY based on the verses above\<newline>'' @
         ''2. Whenever mentioning a verse, WRITE the Arabic text\<newline>'' @
         ''3. Below the Arabic text, provide the translation\<newline>'' @
         ''4. Use format:\<newline>'' @
         ''   [Surah Name Verse X]\<newline>'' @
         ''   [Arabic Text]\<newline>'' @
         ''   [Translation]\<newline>'' @
         ''5. Maximum 3 paragraphs\<newline>'' @
         ''6. If not in these verses, say "Based on the available verses..."\<newline>'' @
         ''\<newline>'' @
         ''ANSWER:'')\<close>

definition createQuranPrompt :: "jsstring \<Rightarrow> ranked_verse list \<Rightarrow> jsstring \<Rightarrow> jsstring" where
  "createQuranPrompt question relevantVerses language =
     (if relevantVerses = []
      then (if language = js ''id'' then prompt_plain_id question else prompt_plain_en question)
      else
        let versesContext =
              join (js ''\<newline>\<newline>'')
                (map (\<lambda>v. if language = js ''id'' then verse_block_id v else verse_block_en v)
                   relevantVerses)
        in if language = js ''id'' then prompt_verses_id question versesContext
           else prompt_verses_en question versesContext)"

section \<open>The handler of \<open>/api/ask\<close>\<close>

definition MODEL_ID :: jsstring where
  "MODEL_ID = js ''@cf/meta/llama-3.3-70b-instruct-fp8-fast''"

definition SYSTEM_PROMPT_id :: jsstring where
  \<open>SYSTEM_PROMPT_id =
     js (''Anda adalah asisten AI khusus Al-Quran yang sangat berpengetahuan.\<newline>'' @
         ''  Nama Anda: Ustad AI.\<newline>'' @
         ''  Tugas Anda:\<newline>'' @
         ''  1. Hanya menjawab berdasarkan Al-Quran dan tafsir yang sahih\<newline>'' @
         ''  2. Jika tidak tahu, katakan dengan jujur\<newline>'' @
         ''  3. Selalu sertakan referensi ayat Al-Quran\<newline>'' @
         ''  4. Gunakan bahasa Indonesia yang baik dan mudah dipahami\<newline>'' @
         ''  5. Berikan penjelasan yang jelas dan mendidik\<newline>'' @
         ''  6. Hindari spekulasi atau pendapat pribadi\<newline>'' @
         ''\<newline>'' @
         ''  Sifat Anda:\<newline>'' @
         ''  - Santun dan sabar\<newline>'' @
         ''  - Ilmiah dan objektif\<newline>'' @
         ''  - Berbasis dalil yang kuat\<newline>'' @
         ''  - Mengutamakan kebenaran'')\<close>

definition SYSTEM_PROMPT_en :: jsstring where
  \<open>SYSTEM_PROMPT_en =
     js (''You are a knowledgeable Quran AI assistant.\<newline>'' @
         ''  Your name: Ustad AI.\<newline>'' @
         ''  Your responsibilities:\<newline>'' @
         ''  1. Answer only based on the Quran and authentic interpretations\<newline>'' @
         ''  2. If you don't know, say so honestly\<newline>'' @
         ''  3. Always include Quran verse references\<newline>'' @
         ''  4. Use clear and understandable English\<newline>'' @
         ''  5. Provide clear and educational explanations\<newline>'' @
         ''  6. Avoid speculation or personal opinions\<newline>'' @
         ''\<newline>'' @
         ''  Your character:\<newline>'' @
         ''  - Polite and patient\<newline>'' @
         ''  - Scientific and objective\<newline>'' @
         ''  - Based on strong evidence\<newline>'' @
         ''  - Prioritizing truth'')\<close>

text \<open>
  The object \<open>SYSTEM_PROMPTS\<close>, by its own keys. A language code that names a member
  inherited from \<open>Object.prototype\<close> (\<open>constructor\<close>, \<open>toString\<close>, ...) is outside the
  model.
\<close>

definition SYSTEM_PROMPTS :: "jsstring \<rightharpoonup> jsstring" where
  "SYSTEM_PROMPTS = [js ''id'' \<mapsto> SYSTEM_PROMPT_id, js ''en'' \<mapsto> SYSTEM_PROMPT_en]"

record AIRequest =
  rq_question :: "jsstring option"
  rq_language :: "jsstring option"

text \<open>The interface \<open>AIResponseOutput\<close> and the objects inside it.\<close>

record VerseData =
  d_surah_id :: int
  d_surah_name :: jsstring
  d_surah_name_arabic :: jsstring
  d_verse_id :: int
  verse_arabic :: jsstring
  verse_translation :: jsstring
  d_reference :: jsstring

record TokensInfo =
  tokens_input :: number
  tokens_output :: number
  tokens_total :: number

record NeuronsInfo =
  neurons_consumed :: number
  neurons_formatted :: jsstring
  neurons_remaining :: number
  neurons_daily_limit :: number

record CostInfo =
  input_usd :: jsstring
  output_usd :: jsstring
  total_usd :: jsstring

record UsageInfo =
  tokens :: TokensInfo
  neurons :: NeuronsInfo
  cost_estimate :: CostInfo

record LimitInfo =
  li_consumed :: number
  li_remaining :: number
  li_daily_limit :: number
  li_message :: "jsstring option"

record AIResponseOutput =
  success :: bool
  answer :: jsstring
  verses_data :: "VerseData list option"
  language :: "jsstring option"
  timestamp :: jsstring
  disclaimer :: "jsstring option"
  usage :: "UsageInfo option"
  error :: "jsstring option"
  limit_info :: "LimitInfo option"

definition formatResponse ::
    "jsstring \<Rightarrow> ranked_verse list \<Rightarrow> jsstring \<Rightarrow> UsageInfo option \<Rightarrow> jsstring \<Rightarrow> AIResponseOutput" where
  \<comment> \<open>the last argument is \<open>new Date().toISOString()\<close>\<close>
  "formatResponse aiAnswer relevantVerses lang usageInfo now =
     \<lparr>success = True,
      answer = aiAnswer,
      verses_data = Some (map (\<lambda>v.
          \<lparr>d_surah_id = surah_id v,
           d_surah_name = surah_name v,
           d_surah_name_arabic = surah_name_arabic v,
           d_verse_id = verse_id v,
           verse_arabic = verse_text_arabic v,
           verse_translation = verse_text_translation v,
           d_reference = reference v\<rparr>) relevantVerses),
      language = Some lang,
      timestamp = now,
      disclaimer = Some (if lang = js ''id''
                         then js ''Jawaban AI untuk referensi. Verifikasi dengan ulama dan tafsir sahih.''
                         else js ''AI answer for reference. Verify with scholars and authentic tafsir.''),
      usage = usageInfo,
      error = None,
      limit_info = None\<rparr>"

datatype ResponseBody = Answer AIResponseOutput | ErrorObject "(jsstring \<times> jsstring) list"

record Response =
  status :: nat
  body :: ResponseBody

definition or_string :: "jsstring option \<Rightarrow> jsstring \<Rightarrow> jsstring" where
  \<comment> \<open>\<open>a || b\<close> for an optional string: absent and empty are falsy\<close>
  "or_string a b = (case a of None \<Rightarrow> b | Some s \<Rightarrow> if s = [] then b else s)"

definition or_number :: "number option \<Rightarrow> number \<Rightarrow> number" where
  \<comment> \<open>\<open>a || b\<close> for an optional number: absent and zero are falsy\<close>
  "or_number a b = (case a of None \<Rightarrow> b | Some n \<Rightarrow> if n = 0 then b else n)"

text \<open>
  The branch of \<open>fetchHandler\<close> for \<open>POST /api/ask\<close>, from the check of the loaded
  corpus on. \<open>quranData\<close> is what \<open>loadQuranData\<close> returned and \<open>request\<close> the parsed
  body; \<open>now_limit\<close> and \<open>now\<close> are the clock as \<open>checkAndUpdateNeuronLimit\<close> and as the
  answer's \<open>timestamp\<close> read it. The \<open>stack\<close> field of the 500 answer is left out.
\<close>

definition api_ask ::
    "(jsstring \<Rightarrow> jsstring) \<Rightarrow> QuranSurah list \<Rightarrow> Env \<Rightarrow> jsstring \<Rightarrow> jsstring \<Rightarrow> AIRequest
       \<Rightarrow> Response \<times> Env" where
  \<open>api_ask toLowerCase quranData env now_limit now request =
     (if quranData = []
      then (\<lparr>status = 500,
              body = ErrorObject [(js ''error'', js ''Internal server error''),
                                  (js ''message'', js ''Quran data not available'')]\<rparr>, env)
      else
        let question = or_string (rq_question request) [];
            lang = (case rq_language request of None \<Rightarrow> js ''id'' | Some l \<Rightarrow> l)
        in if question = []
           then (\<lparr>status = 400, body = ErrorObject [(js ''error'', js ''Question is required'')]\<rparr>, env)
           else if length question > 500
           then (\<lparr>status = 400,
                   body = ErrorObject [(js ''error'', js ''Pertanyaan terlalu panjang''),
                                       (js ''message'', js ''Maksimal 500 karakter''),
                                       (js ''suggestion'', js ''Sederhanakan pertanyaan Anda'')]\<rparr>, env)
           else
             let keywords = extractKeywords toLowerCase question;
                 relevantVerses = findRelevantVerses toLowerCase quranData keywords 3;
                 systemPrompt = (case SYSTEM_PROMPTS lang of Some p \<Rightarrow> p | None \<Rightarrow> SYSTEM_PROMPT_id);
                 userPrompt = createQuranPrompt question relevantVerses lang;
                 msgs = [\<lparr>role = System, content = systemPrompt\<rparr>,
                         \<lparr>role = User, content = userPrompt\<rparr>]
             in case AI env MODEL_ID
                       \<lparr>messages = msgs, max_tokens = 512, temperature = round_double (7 / 10)\<rparr> of
                  Inr aiResponse \<Rightarrow>
                    let aiAnswer = or_string (resp_response aiResponse)
                                     (or_string (resp_content aiResponse)
                                        (or_string (resp_answer aiResponse) []));
                        promptTokens = or_number (map_option prompt_tokens (resp_usage aiResponse))
                                         (estimateTokens (systemPrompt @ userPrompt));
                        completionTokens = or_number (map_option completion_tokens (resp_usage aiResponse))
                                             (estimateTokens aiAnswer);
                        (limitCheck, env') = checkAndUpdateNeuronLimit env now_limit promptTokens completionTokens
                    in if \<not> allowed limitCheck
                       then
                         let fallbackAnswer =
                               (if lang = js ''id''
                                then js ''Batas harian neuron terlampaui. Berikut ayat-ayat terkait "'' @
                                     question @
                                     js ''":''
                                else js ''Daily neuron limit exceeded. Here are relevant Quran verses about "'' @
                                     question @
                                     js ''":'')
                         in (\<lparr>status = 200,
                               body = Answer
                                 \<lparr>success = False,
                                  answer = fallbackAnswer,
                                  verses_data = Some (map (\<lambda>v.
                                      \<lparr>d_surah_id = surah_id v,
                                       d_surah_name = surah_name v,
                                       d_surah_name_arabic = surah_name_arabic v,
                                       d_verse_id = verse_id v,
                                       verse_arabic = verse_text_arabic v,
                                       verse_translation = verse_text_translation v,
                                       d_reference = reference v\<rparr>) relevantVerses),
                                  language = Some lang,
                                  timestamp = now,
                                  disclaimer = Some (if lang = js ''id''
                                    then js ''AI sedang offline karena batas harian neuron. Hanya menampilkan ayat-ayat Al-Quran yang relevan.''
                                    else js ''AI is offline due to daily neuron limit. Only displaying relevant Quran verses.''),
                                  usage = None,
                                  error = Some (js ''neuron_limit_exceeded''),
                                  limit_info = Some \<lparr>li_consumed = consumed limitCheck,
                                                      li_remaining = remaining limitCheck,
                                                      li_daily_limit = dailyLimit limitCheck,
                                                      li_message = message limitCheck\<rparr>\<rparr>\<rparr>, env')
                       else
                         let costEstimate = estimateCost promptTokens completionTokens;
                             formattedResponse =
                               formatResponse aiAnswer relevantVerses lang
                                 (Some \<lparr>tokens = \<lparr>tokens_input = promptTokens,
                                                   tokens_output = completionTokens,
                                                   tokens_total = fadd promptTokens completionTokens\<rparr>,
                                        neurons = \<lparr>neurons_consumed = consumed limitCheck,
                                                    neurons_formatted = formatNeurons (consumed limitCheck),
                                                    neurons_remaining = remaining limitCheck,
                                                    neurons_daily_limit = dailyLimit limitCheck\<rparr>,
                                        cost_estimate = \<lparr>input_usd = toFixed 6 (inputCost costEstimate),
                                                          output_usd = toFixed 6 (outputCost costEstimate),
                                                          total_usd = toFixed 6 (totalCost costEstimate)\<rparr>\<rparr>)
                                 now
                         in (\<lparr>status = 200, body = Answer formattedResponse\<rparr>, env')
                | Inl aiError \<Rightarrow>
                    let fallbackAnswer =
                          (if lang = js ''id''
                           then js ''Berdasarkan pertanyaan Anda tentang "'' @
                                question @
                                js ''", berikut beberapa ayat Al-Quran yang relevan:''
                           else js ''Based on your question about "'' @
                                question @
                                js ''", here are some relevant Quran verses:'')
                    in (\<lparr>status = 200,
                          body = Answer
                            \<lparr>success = False,
                             answer = fallbackAnswer,
                             verses_data = Some (map (\<lambda>v.
                                 \<lparr>d_surah_id = surah_id v,
                                  d_surah_name = surah_name v,
                                  d_surah_name_arabic = surah_name_arabic v,
                                  d_verse_id = verse_id v,
                                  verse_arabic = verse_text_arabic v,
                                  verse_translation = verse_text_translation v,
                                  d_reference = reference v\<rparr>) relevantVerses),
                             language = Some lang,
                             timestamp = now,
                             disclaimer = Some (if lang = js ''id''
                               then js ''AI sedang mengalami gangguan. Hanya menampilkan ayat-ayat Al-Quran yang relevan.''
                               else js ''AI service is currently unavailable. Only displaying relevant Quran verses.''),
                             usage = None,
                             error = Some (js ''AI service temporarily unavailable''),
                             limit_info = None\<rparr>\<rparr>, env))\<close>

section \<open>Notions used in the statements\<close>

text \<open>
  The words of a string: its maximal runs of word characters. A lower-cased question is
  made of stop words and short tokens only when each of its words is at most two code
  units long or is a stop word. The predicate is applied to the question as the
  extractor sees it, that is after \<open>toLowerCase\<close>: the stop words are in lower case, and
  lower-casing can turn a character that is not a word character into one.
\<close>

function words_of :: "jsstring \<Rightarrow> jsstring list" where
  "words_of s =
     (let s' = dropWhile (\<lambda>c. \<not> is_word_char c) s
      in if s' = [] then [] else takeWhile is_word_char s' # words_of (dropWhile is_word_char s'))"
  by pat_completeness auto
termination
proof (relation "measure length")
  show "wf (measure length)" by simp
next
  fix s s'
  assume s': "s' = dropWhile (\<lambda>c. \<not> is_word_char c) s" and ne: "s' \<noteq> []"
  from ne obtain c cs where cs: "s' = c # cs" by (cases s') auto
  have "dropWhile (\<lambda>c. \<not> is_word_char c) s \<noteq> []"
    using s' ne by simp
  then have "\<not> \<not> is_word_char (hd (dropWhile (\<lambda>c. \<not> is_word_char c) s))"
    by (rule hd_dropWhile)
  moreover have "hd (dropWhile (\<lambda>c. \<not> is_word_char c) s) = c"
    using s' cs by (metis list.sel(1))
  ultimately have "is_word_char c" by simp
  then have "length (dropWhile is_word_char s') \<le> length cs"
    using cs by (simp add: length_dropWhile_le)
  moreover have "length s' \<le> length s"
    unfolding s' by (rule length_dropWhile_le)
  ultimately show "(dropWhile is_word_char s', s) \<in> measure length"
    using cs by simp
qed

declare words_of.simps [simp del]

definition only_stop_or_short :: "jsstring \<Rightarrow> bool" where
  "only_stop_or_short lowered =
     list_all (\<lambda>w. length w \<le> 2 \<or> w \<in> set stopWords) (words_of lowered)"


text \<open>
  A store is within the cap when no entry exceeds the daily limit. The store a day
  starts from has every record absent or zero.
\<close>

definition within_cap :: "(jsstring \<rightharpoonup> number \<times> nat) \<Rightarrow> bool" where
  "within_cap store = (\<forall>key v ttl. store key = Some (v, ttl) \<longrightarrow> v \<le> DAILY_NEURON_LIMIT)"

definition absent_or_zero :: "(jsstring \<rightharpoonup> number \<times> nat) \<Rightarrow> bool" where
  "absent_or_zero store = (\<forall>key v ttl. store key = Some (v, ttl) \<longrightarrow> v = 0)"

text \<open>
  The answer object of a response, if it has one; and the intermediate values of
  \<open>api_ask\<close> by name: the language with its default, the system prompt, the ranking,
  the input of the gateway call and the quota check on the gateway's answer.
\<close>

definition response_answer :: "Response \<Rightarrow> AIResponseOutput option" where
  "response_answer r = (case body r of Answer out \<Rightarrow> Some out | ErrorObject obj \<Rightarrow> None)"

definition ask_language :: "AIRequest \<Rightarrow> jsstring" where
  "ask_language request = (case rq_language request of None \<Rightarrow> js ''id'' | Some l \<Rightarrow> l)"

definition ask_system_prompt :: "jsstring \<Rightarrow> jsstring" where
  "ask_system_prompt lang = (case SYSTEM_PROMPTS lang of Some p \<Rightarrow> p | None \<Rightarrow> SYSTEM_PROMPT_id)"

definition ask_ranking :: "(jsstring \<Rightarrow> jsstring) \<Rightarrow> QuranSurah list \<Rightarrow> jsstring \<Rightarrow> ranked_verse list" where
  "ask_ranking toLowerCase quranData question =
     findRelevantVerses toLowerCase quranData (extractKeywords toLowerCase question) 3"

definition gateway_input ::
    "(jsstring \<Rightarrow> jsstring) \<Rightarrow> QuranSurah list \<Rightarrow> jsstring \<Rightarrow> jsstring \<Rightarrow> AIRunInput" where
  "gateway_input toLowerCase quranData question lang =
     \<lparr>messages = [\<lparr>role = System, content = ask_system_prompt lang\<rparr>,
                  \<lparr>role = User,
                   content = createQuranPrompt question (ask_ranking toLowerCase quranData question) lang\<rparr>],
      max_tokens = 512, temperature = round_double (7 / 10)\<rparr>"

definition no_answer_text :: "AIResponse \<Rightarrow> bool" where
  "no_answer_text r =
     ((resp_response r = None \<or> resp_response r = Some [])
      \<and> (resp_content r = None \<or> resp_content r = Some [])
      \<and> (resp_answer r = None \<or> resp_answer r = Some []))"

definition ask_limit_check ::
    "(jsstring \<Rightarrow> jsstring) \<Rightarrow> QuranSurah list \<Rightarrow> Env \<Rightarrow> jsstring \<Rightarrow> jsstring \<Rightarrow> jsstring
       \<Rightarrow> AIResponse \<Rightarrow> LimitCheck \<times> Env" where
  "ask_limit_check toLowerCase quranData env now_limit question lang aiResponse =
     checkAndUpdateNeuronLimit env now_limit
       (or_number (map_option prompt_tokens (resp_usage aiResponse))
          (estimateTokens (ask_system_prompt lang
             @ createQuranPrompt question (ask_ranking toLowerCase quranData question) lang)))
       (or_number (map_option completion_tokens (resp_usage aiResponse))
          (estimateTokens (or_string (resp_response aiResponse)
             (or_string (resp_content aiResponse) (or_string (resp_answer aiResponse) [])))))"

subsection \<open>Example data\<close>

text \<open>All strings of the examples are ASCII, where \<open>toLowerCase\<close> is \<open>toLowerCase_ascii\<close>.\<close>

definition example_corpus :: "QuranSurah list" where
  "example_corpus =
     [\<lparr>s_id = 2, s_name = js ''Al-Baqarah'', s_transliteration = js ''Al-Baqarah'',
       s_translation = js ''Sapi Betina'', s_type = js ''Madaniyah'', s_total_verses = 286,
       s_verses =
         [\<lparr>v_id = 153, v_text = js ''(153)'',
           v_translation = js ''Mintalah pertolongan dengan sabar dan salat.''\<rparr>,
          \<lparr>v_id = 154, v_text = js ''(154)'', v_translation = []\<rparr>,
          \<lparr>v_id = 155, v_text = js ''(155)'',
           v_translation = js ''Berilah kabar gembira kepada orang yang SABAR.''\<rparr>]\<rparr>,
      \<lparr>s_id = 103, s_name = js ''Al-Asr'', s_transliteration = js ''Al-Asr'',
       s_translation = js ''Masa'', s_type = js ''Makkiyah'', s_total_verses = 3,
       s_verses =
         [\<lparr>v_id = 1, v_text = js ''(1)'', v_translation = js ''Demi masa.''\<rparr>,
          \<lparr>v_id = 3, v_text = js ''(3)'',
           v_translation = js ''Saling menasihati untuk kesabaran, sabar.''\<rparr>]\<rparr>]"

definition example_keywords :: "jsstring list" where
  "example_keywords = [js ''sabar'', js ''salat'']"

definition example_question :: jsstring where
  "example_question = js ''Apa itu sabar dan salat?''"

definition store_with :: "number \<Rightarrow> (jsstring \<rightharpoonup> number \<times> nat)" where
  \<comment> \<open>the store with one record, written on the first of January 2026\<close>
  "store_with v = [js ''neuron_usage:2026-01-01'' \<mapsto> (v, 86400)]"

definition example_store :: "jsstring \<rightharpoonup> number \<times> nat" where
  "example_store = store_with 9990"

definition example_env :: "(jsstring \<rightharpoonup> number \<times> nat) \<Rightarrow> bool \<Rightarrow> bool \<Rightarrow> AIResponse \<Rightarrow> Env" where
  "example_env store get_throws put_throws r =
     \<lparr>AI = (\<lambda>model input. Inr r),
      NEURON_LIMITER = \<lparr>kv_entries = store, kv_get_throws = get_throws, kv_put_throws = put_throws\<rparr>,
      RATE_LIMITER = \<lparr>kv_entries = Map.empty, kv_get_throws = False, kv_put_throws = False\<rparr>\<rparr>"

definition day1 :: jsstring where
  "day1 = js ''2026-01-01T10:00:00.000Z''"

definition no_answer :: AIResponse where
  "no_answer = \<lparr>resp_response = None, resp_content = None, resp_answer = None,
                 resp_usage = Some \<lparr>prompt_tokens = 100, completion_tokens = 50, total_tokens = 150\<rparr>\<rparr>"

definition empty_env :: "bool \<Rightarrow> bool \<Rightarrow> Env" where
  "empty_env get_throws put_throws = example_env Map.empty get_throws put_throws no_answer"

definition failing_env :: Env where
  "failing_env =
     \<lparr>AI = (\<lambda>model input. Inl (js ''gateway timeout'')),
      NEURON_LIMITER = \<lparr>kv_entries = Map.empty, kv_get_throws = False, kv_put_throws = False\<rparr>,
      RATE_LIMITER = \<lparr>kv_entries = Map.empty, kv_get_throws = False, kv_put_throws = False\<rparr>\<rparr>"

definition ask_sabar :: AIRequest where
  "ask_sabar = \<lparr>rq_question = Some example_question, rq_language = None\<rparr>"

text \<open>
  Two runs at the cap, where the rounding of the doubles decides. From an empty store the
  calls with the token counts \<open>(1, 0)\<close> and \<open>(242519, 17248)\<close> total
  \<open>10000.000000000002\<close>. On the total \<open>1.2000600000000001\<close>, which a call with
  \<open>(45, 0)\<close> leaves, the call with \<open>(242475, 17248)\<close> totals \<open>10000\<close>.
\<close>

definition cap_calls :: "limit_call list" where
  "cap_calls = [(day1, False, False, 1, 0), (day1, False, False, 242519, 17248)]"

definition near_cap_env :: "bool \<Rightarrow> Env" where
  "near_cap_env put_throws =
     example_env (store_with (2702294884411119 / 2251799813685248)) False put_throws no_answer"

section \<open>Properties of the ranker\<close>

lemma fold_keyword_sum:
  "fold (\<lambda>keyword score. if P keyword then score + length keyword else score) ks a
     = a + (\<Sum>keyword\<leftarrow>filter P ks. length keyword)"
  by (induction ks arbitrary: a) simp_all

lemma keyword_score_sum:
  "keyword_score keywords verseText
     = (\<Sum>keyword\<leftarrow>filter (str_includes verseText) keywords. length keyword)"
  unfolding keyword_score_def by (simp add: fold_keyword_sum)

lemma scan_verses_score:
  "e \<in> set (scan_verses toLowerCase surah keywords vs) \<Longrightarrow>
     score e = keyword_score keywords (toLowerCase (verse_text_translation e)) \<and> 0 < score e"
  by (induction vs) (auto simp: Let_def split: if_splits)

lemma scan_surahs_score:
  "e \<in> set (scan_surahs toLowerCase quranData keywords) \<Longrightarrow>
     score e = keyword_score keywords (toLowerCase (verse_text_translation e)) \<and> 0 < score e"
  by (induction quranData) (auto dest: scan_verses_score)

lemma score_add_reference [simp]: "score (add_reference v) = score v"
  by (simp add: add_reference_def scored_verse.defs)

lemma translation_add_reference [simp]:
  "verse_text_translation (add_reference v) = verse_text_translation v"
  by (simp add: add_reference_def scored_verse.defs)

lemma set_slice0: "set (slice0 limit xs) \<subseteq> set xs"
  by (auto simp: slice0_def dest: in_set_takeD)

lemma prefix_slice0: "prefix (slice0 limit xs) xs"
  by (simp add: slice0_def take_is_prefix)

lemma length_slice0: "0 \<le> limit \<Longrightarrow> int (length (slice0 limit xs)) \<le> limit"
  by (simp add: slice0_def)

lemma set_sort_by_score [simp]: "set (sort_by_score vs) = set vs"
  by (simp add: sort_by_score_def)

lemma findRelevantVerses_entry:
  assumes "e \<in> set (findRelevantVerses toLowerCase quranData keywords limit)"
  shows "\<exists>v \<in> set (scan_surahs toLowerCase quranData keywords). e = add_reference v"
  using assms set_slice0 [of limit "sort_by_score (scan_surahs toLowerCase quranData keywords)"]
  by (auto simp: findRelevantVerses_def)

lemma sorted_sort_by_score:
  "sorted_wrt (\<lambda>a b. score b \<le> score a) (sort_by_score vs)"
proof -
  have "sorted (map (\<lambda>v. - int (score v)) (sort_by_score vs))"
    unfolding sort_by_score_def by (rule sorted_sort_key)
  then show ?thesis
    by (simp add: sorted_map sorted_wrt_iff_nth_less)
qed

lemma sorted_wrt_prefix: "prefix xs ys \<Longrightarrow> sorted_wrt R ys \<Longrightarrow> sorted_wrt R xs"
  by (auto simp: prefix_def sorted_wrt_append)

lemma stable_sort_by_score:
  "filter (\<lambda>v. score v = k) (sort_by_score vs) = filter (\<lambda>v. score v = k) vs"
proof -
  have "filter (\<lambda>v. - int (score v) = - int k) (sort_key (\<lambda>v. - int (score v)) vs)
          = filter (\<lambda>v. - int (score v) = - int k) vs"
    by (rule sort_key_stable)
  then show ?thesis by (simp add: sort_by_score_def)
qed

lemma filter_map_add_reference:
  "filter (\<lambda>e. score e = k) (map add_reference vs) = map add_reference (filter (\<lambda>v. score v = k) vs)"
  by (simp add: filter_map comp_def)

lemma example_top2:
  "map (\<lambda>v. (verse_id v, score v)) (findRelevantVerses toLowerCase_ascii example_corpus example_keywords 2)
     = [(153, 10), (155, 5)]"
  by code_simp

lemma example_all:
  "map (\<lambda>v. (verse_id v, score v)) (findRelevantVerses toLowerCase_ascii example_corpus example_keywords (- 1))
     = [(153, 10), (155, 5)]"
  by code_simp

lemma example_candidates:
  "map (\<lambda>v. (verse_id v, score v)) (scan_surahs toLowerCase_ascii example_corpus example_keywords)
     = [(153, 10), (155, 5), (3, 5)]"
  by code_simp

text \<open>
  Claim C3, as it holds on the code. For every corpus, keyword list and limit \<open>N\<close>, the
  list returned by \<open>findRelevantVerses\<close> is sorted by non-increasing score; for every
  score \<open>k\<close> the returned entries of score \<open>k\<close> are an initial segment of the
  candidates of score \<open>k\<close> in corpus order, so ties keep the order of the corpus; no
  returned entry has score 0; and when \<open>N\<close> is not negative the list has at most \<open>N\<close>
  entries. This holds whatever function \<open>toLowerCase\<close> is.
\<close>

theorem ranking_sorted_stable_bounded:
  "sorted_wrt (\<lambda>a b. score b \<le> score a) (findRelevantVerses toLowerCase quranData keywords limit)
   \<and> (\<forall>k. prefix (filter (\<lambda>e. score e = k) (findRelevantVerses toLowerCase quranData keywords limit))
              (filter (\<lambda>e. score e = k) (map add_reference (scan_surahs toLowerCase quranData keywords))))
   \<and> (0 \<le> limit \<longrightarrow> int (length (findRelevantVerses toLowerCase quranData keywords limit)) \<le> limit)
   \<and> (\<forall>e \<in> set (findRelevantVerses toLowerCase quranData keywords limit). 0 < score e)"
proof (intro conjI allI impI ballI)
  let ?c = "scan_surahs toLowerCase quranData keywords"
  have "sorted_wrt (\<lambda>a b. score b \<le> score a) (slice0 limit (sort_by_score ?c))"
    using prefix_slice0 sorted_sort_by_score by (rule sorted_wrt_prefix)
  then show "sorted_wrt (\<lambda>a b. score b \<le> score a) (findRelevantVerses toLowerCase quranData keywords limit)"
    by (simp add: findRelevantVerses_def sorted_wrt_map)
next
  fix k
  let ?c = "scan_surahs toLowerCase quranData keywords"
  have "prefix (filter (\<lambda>v. score v = k) (slice0 limit (sort_by_score ?c)))
               (filter (\<lambda>v. score v = k) (sort_by_score ?c))"
    using prefix_slice0 by (rule filter_mono_prefix)
  then have "prefix (filter (\<lambda>v. score v = k) (slice0 limit (sort_by_score ?c)))
               (filter (\<lambda>v. score v = k) ?c)"
    by (simp add: stable_sort_by_score)
  then have "prefix (map add_reference (filter (\<lambda>v. score v = k) (slice0 limit (sort_by_score ?c))))
               (map add_reference (filter (\<lambda>v. score v = k) ?c))"
    by (rule map_mono_prefix)
  then show "prefix (filter (\<lambda>e. score e = k) (findRelevantVerses toLowerCase quranData keywords limit))
              (filter (\<lambda>e. score e = k) (map add_reference ?c))"
    by (simp add: findRelevantVerses_def filter_map_add_reference)
next
  assume "0 \<le> limit"
  then show "int (length (findRelevantVerses toLowerCase quranData keywords limit)) \<le> limit"
    by (simp add: findRelevantVerses_def length_slice0)
next
  fix e assume "e \<in> set (findRelevantVerses toLowerCase quranData keywords limit)"
  then obtain v where "v \<in> set (scan_surahs toLowerCase quranData keywords)" "e = add_reference v"
    using findRelevantVerses_entry by blast
  then show "0 < score e" using scan_surahs_score [of v toLowerCase quranData "keywords"] by simp
qed

text \<open>
  With the limit \<open>-1\<close>, \<open>slice(0, -1)\<close> drops the last of three candidates and two
  entries are returned, which is more than the limit.
\<close>

theorem ranking_negative_limit:
  "map (\<lambda>v. (verse_id v, score v)) (findRelevantVerses toLowerCase_ascii example_corpus example_keywords (- 1))
     = [(153, 10), (155, 5)]
   \<and> length (findRelevantVerses toLowerCase_ascii example_corpus example_keywords (- 1)) = 2
   \<and> \<not> int (length (findRelevantVerses toLowerCase_ascii example_corpus example_keywords (- 1))) \<le> - 1"
proof -
  have "length (findRelevantVerses toLowerCase_ascii example_corpus example_keywords (- 1))
          = length (map (\<lambda>v. (verse_id v, score v))
              (findRelevantVerses toLowerCase_ascii example_corpus example_keywords (- 1)))"
    by simp
  also have "\<dots> = 2"
    by (simp only: example_all) simp
  finally show ?thesis using example_all by simp
qed

theorem ranking_sorted_stable_bounded_witness:
  "(0 :: int) \<le> 2
   \<and> map (\<lambda>v. (verse_id v, score v)) (findRelevantVerses toLowerCase_ascii example_corpus example_keywords 2)
       = [(153, 10), (155, 5)]
   \<and> map (\<lambda>v. (verse_id v, score v)) (scan_surahs toLowerCase_ascii example_corpus example_keywords)
       = [(153, 10), (155, 5), (3, 5)]
   \<and> sorted_wrt (\<lambda>a b. score b \<le> score a)
        (findRelevantVerses toLowerCase_ascii example_corpus example_keywords 2)
   \<and> prefix (filter (\<lambda>e. score e = 5) (findRelevantVerses toLowerCase_ascii example_corpus example_keywords 2))
        (filter (\<lambda>e. score e = 5)
           (map add_reference (scan_surahs toLowerCase_ascii example_corpus example_keywords)))
   \<and> int (length (findRelevantVerses toLowerCase_ascii example_corpus example_keywords 2)) \<le> 2
   \<and> list_all (\<lambda>e. 0 < score e) (findRelevantVerses toLowerCase_ascii example_corpus example_keywords 2)"
  using ranking_sorted_stable_bounded [of toLowerCase_ascii example_corpus example_keywords 2]
    example_top2 example_candidates
  by (simp add: list_all_iff)

text \<open>
  Claim C4. The score that \<open>findRelevantVerses\<close> computes for a verse text is the sum
  of the lengths of the keywords that occur in the text, one term for each entry of the
  keyword list that occurs, however often it occurs in the text. For a list without
  repetitions this is the sum over the set of occurring keywords. Every returned entry
  carries this score for its lower-cased translation.
\<close>

theorem score_sums_matching_keywords:
  "keyword_score keywords verseText
     = (\<Sum>keyword\<leftarrow>filter (str_includes verseText) keywords. length keyword)
   \<and> (distinct keywords \<longrightarrow>
        keyword_score keywords verseText
          = (\<Sum>keyword \<in> {k \<in> set keywords. str_includes verseText k}. length keyword))
   \<and> (\<forall>e \<in> set (findRelevantVerses toLowerCase quranData keywords limit).
        score e = (\<Sum>keyword\<leftarrow>filter (str_includes (toLowerCase (verse_text_translation e))) keywords.
                     length keyword))"
proof (intro conjI impI ballI)
  show "keyword_score keywords verseText
     = (\<Sum>keyword\<leftarrow>filter (str_includes verseText) keywords. length keyword)"
    by (rule keyword_score_sum)
next
  assume "distinct keywords"
  then have "distinct (filter (str_includes verseText) keywords)" by simp
  then have "(\<Sum>keyword\<leftarrow>filter (str_includes verseText) keywords. length keyword)
      = (\<Sum>keyword \<in> set (filter (str_includes verseText) keywords). length keyword)"
    by (rule sum_list_distinct_conv_sum_set)
  then show "keyword_score keywords verseText
          = (\<Sum>keyword \<in> {k \<in> set keywords. str_includes verseText k}. length keyword)"
    by (simp add: keyword_score_sum)
next
  fix e assume "e \<in> set (findRelevantVerses toLowerCase quranData keywords limit)"
  then obtain v where "v \<in> set (scan_surahs toLowerCase quranData keywords)" "e = add_reference v"
    using findRelevantVerses_entry by blast
  then show "score e = (\<Sum>keyword\<leftarrow>filter (str_includes (toLowerCase (verse_text_translation e))) keywords.
                     length keyword)"
    using scan_surahs_score [of v toLowerCase quranData "keywords"] by (simp add: keyword_score_sum)
qed

lemma example_score:
  "keyword_score example_keywords (toLowerCase_ascii (js ''Sabar, sabar dan salat: kesabaran.'')) = 10"
  by code_simp

lemma example_distinct: "distinct example_keywords"
  by code_simp

theorem score_sums_matching_keywords_witness:
  "distinct example_keywords
   \<and> keyword_score example_keywords (toLowerCase_ascii (js ''Sabar, sabar dan salat: kesabaran.'')) = 10
   \<and> (\<Sum>keyword \<in> {k \<in> set example_keywords.
          str_includes (toLowerCase_ascii (js ''Sabar, sabar dan salat: kesabaran.'')) k}. length keyword) = 10
   \<and> findRelevantVerses toLowerCase_ascii example_corpus example_keywords 2 \<noteq> []
   \<and> list_all (\<lambda>e. score e =
          (\<Sum>keyword\<leftarrow>filter (str_includes (toLowerCase_ascii (verse_text_translation e))) example_keywords.
             length keyword)) (findRelevantVerses toLowerCase_ascii example_corpus example_keywords 2)"
proof -
  have ne: "findRelevantVerses toLowerCase_ascii example_corpus example_keywords 2 \<noteq> []"
    using example_top2 by auto
  from score_sums_matching_keywords
         [of example_keywords "toLowerCase_ascii (js ''Sabar, sabar dan salat: kesabaran.'')"
             toLowerCase_ascii example_corpus 2]
    example_score example_distinct ne
  show ?thesis by (simp add: list_all_iff)
qed

section \<open>Properties of the keyword extractor\<close>





















text \<open>
  The hypothesis is about the lower-cased question for a reason. The Kelvin sign U+212A
  (8490) is not a word character, and \<open>toLowerCase\<close> maps it to \<open>k\<close>: the question made of
  the Kelvin sign, \<open>a\<close> and the Kelvin sign has the single word \<open>a\<close>, its lower-cased form
  is \<open>kak\<close>, and that is the keyword extracted.
\<close>

lemma kelvin_sign_example:
  assumes "toLowerCase [8490, 97, 8490] = js ''kak''"
  shows "words_of [8490, 97, 8490] = [js ''a'']"
    and "extractKeywords toLowerCase [8490, 97, 8490] = [js ''kak'']"
    and "\<not> only_stop_or_short (toLowerCase [8490, 97, 8490])"
proof -
  show "words_of [8490, 97, 8490] = [js ''a'']"
    by (simp add: words_of.simps [of "[8490, 97, 8490]"] words_of.simps [of "[8490]"]
          words_of.simps [of "[]"] is_word_char_def js_def Let_def)
  have "extractKeywords (\<lambda>s. js ''kak'') [] = [js ''kak'']"
    by code_simp
  then show "extractKeywords toLowerCase [8490, 97, 8490] = [js ''kak'']"
    by (simp add: extractKeywords_def assms)
  have "\<not> only_stop_or_short (js ''kak'')" by code_simp
  then show "\<not> only_stop_or_short (toLowerCase [8490, 97, 8490])"
    by (simp add: assms)
qed

section \<open>Properties of the usage meter\<close>

subsection \<open>Computing with doubles\<close>

lemma floor_numeral_div: "\<lfloor>(numeral a :: rat) / numeral b\<rfloor> = numeral a div numeral b"
  using floor_divide_of_int_eq [of "numeral a" "numeral b", where ?'a = rat] by simp

lemma ceiling_numeral_div: "\<lceil>(numeral a :: rat) / numeral b\<rceil> = - ((- numeral a) div numeral b)"
  unfolding ceiling_def
  using floor_divide_of_int_eq [of "- numeral a" "numeral b", where ?'a = rat] by simp

lemma bit_length_numeral:
  "bit_length (numeral k) = 1 + bit_length (numeral k div 2)"
  "bit_length 0 = 0" "bit_length (Suc 0) = 1" "bit_length 1 = 1"
  by (simp_all add: bit_length.simps [of "numeral k"] bit_length.simps [of 0]
        bit_length.simps [of "Suc 0"] bit_length.simps [of 1])

lemmas double_eval =
  round_double_def ilog2_def round_half_even_def pow2_def fadd_def fsub_def fmul_def fdiv_def
  parseFloat_def floor_numeral_div ceiling_numeral_div bit_length_numeral Let_def

lemma digits_numeral:
  "digits (numeral v) =
     (if (numeral v :: nat) < 10 then [48 + numeral v]
      else digits (numeral v div 10) @ [48 + numeral v mod 10])"
  and digits_0: "digits 0 = [48]" and digits_1: "digits (Suc 0) = [49]"
  by (simp_all add: digits.simps [of "numeral v"] digits.simps [of 0] digits.simps [of "Suc 0"])

lemma pow2_pos: "0 < pow2 k"
  by (simp add: pow2_def)

lemma round_half_even_nonneg: "0 \<le> y \<Longrightarrow> 0 \<le> round_half_even y"
proof -
  assume "0 \<le> y"
  then have "0 \<le> \<lfloor>y\<rfloor>" by simp
  then show ?thesis by (simp add: round_half_even_def Let_def)
qed

lemma round_double_nonneg: "0 \<le> x \<Longrightarrow> 0 \<le> round_double x"
proof (cases "x = 0")
  case True
  then show ?thesis by (simp add: round_double_def)
next
  case False
  assume "0 \<le> x"
  with False have pos: "0 < x" by simp
  let ?q = "max (ilog2 \<bar>x\<bar> - 52) (- 1074)"
  have "0 \<le> \<bar>x\<bar> / pow2 ?q"
    using pow2_pos [of ?q] by simp
  then have "0 \<le> round_half_even (\<bar>x\<bar> / pow2 ?q)"
    by (rule round_half_even_nonneg)
  then have "0 \<le> of_int (round_half_even (\<bar>x\<bar> / pow2 ?q)) * pow2 ?q"
    using pow2_pos [of ?q] by simp
  then show ?thesis
    using pos False by (simp add: round_double_def Let_def)
qed

text \<open>
  The model computes what the doubles do: the two rates, and the consumption of 1000
  completion tokens, \<open>204.80499999999998\<close>, of 85, \<open>17.408424999999998\<close>, and of 45 prompt
  tokens, \<open>1.2000600000000001\<close>, each given by its exact value.
\<close>

lemma rates:
  "INPUT_TOKEN_NEURON_RATE = 7686527671213849 / 288230376151711744"
  "OUTPUT_TOKEN_NEURON_RATE = 7378877773468915 / 36028797018963968"
  by (simp_all add: INPUT_TOKEN_NEURON_RATE_def OUTPUT_TOKEN_NEURON_RATE_def double_eval)

lemma consumed_0_1000: "calculateNeuronsConsumed 0 1000 = 7205935325653237 / 35184372088832"
  by (simp add: calculateNeuronsConsumed_def rates double_eval)

lemma consumed_0_85: "calculateNeuronsConsumed 0 85 = 4900036021444201 / 281474976710656"
  by (simp add: calculateNeuronsConsumed_def rates double_eval)

lemma consumed_45_0: "calculateNeuronsConsumed 45 0 = 2702294884411119 / 2251799813685248"
  by (simp add: calculateNeuronsConsumed_def rates double_eval)

lemma consumed_100_50: "calculateNeuronsConsumed 100 50 = 7266023196306545 / 562949953421312"
  by (simp add: calculateNeuronsConsumed_def rates double_eval)

lemma consumed_1_0: "calculateNeuronsConsumed 1 0 = 7686527671213849 / 288230376151711744"
  by (simp add: calculateNeuronsConsumed_def rates double_eval)

lemma consumed_242519_17248: "calculateNeuronsConsumed 242519 17248 = 1374385869497989 / 137438953472"
  by (simp add: calculateNeuronsConsumed_def rates double_eval)

lemma consumed_242475_17248: "calculateNeuronsConsumed 242475 17248 = 2748449199458993 / 274877906944"
  by (simp add: calculateNeuronsConsumed_def rates double_eval)

lemma consumed_1000000_0: "calculateNeuronsConsumed 1000000 0 = 26668"
  by (simp add: calculateNeuronsConsumed_def rates double_eval)

lemma total_at_cap_above:
  "fadd (7686527671213849 / 288230376151711744) (1374385869497989 / 137438953472)
     = 5497558138880001 / 549755813888"
  by (simp add: double_eval)

lemma total_at_cap_exact:
  "fadd (2702294884411119 / 2251799813685248) (2748449199458993 / 274877906944) = 10000"
  by (simp add: double_eval)

text \<open>
  Claim C8. \<open>formatNeurons\<close> maps 500 to \<open>500.00\<close>, 1500 to \<open>1.50k\<close> and 2500000 to
  \<open>2.5000M\<close>; exactly 1000 is formatted with the scale \<open>k\<close> and exactly 1000000 with
  the scale \<open>M\<close>.
\<close>

theorem formatNeurons_examples:
  "formatNeurons 500 = js ''500.00''
   \<and> formatNeurons 1500 = js ''1.50k''
   \<and> formatNeurons 2500000 = js ''2.5000M''
   \<and> formatNeurons 1000 = js ''1.00k''
   \<and> formatNeurons 1000000 = js ''1.0000M''"
  by (simp add: formatNeurons_def toFixed_def double_eval digits_numeral digits_0 digits_1 js_def)

subsection \<open>The quota check\<close>

lemma check_denied:
  assumes "DAILY_NEURON_LIMIT < fadd (current_total env now) (calculateNeuronsConsumed p c)"
  shows "\<not> allowed (fst (checkAndUpdateNeuronLimit env now p c))"
    and "remaining (fst (checkAndUpdateNeuronLimit env now p c))
           = max 0 (fsub DAILY_NEURON_LIMIT (current_total env now))"
    and "snd (checkAndUpdateNeuronLimit env now p c) = env"
  using assms
  by (simp_all add: checkAndUpdateNeuronLimit_def current_total_def usage_key_def Let_def)

lemma check_allowed_iff:
  "allowed (fst (checkAndUpdateNeuronLimit env now p c))
     = (fadd (current_total env now) (calculateNeuronsConsumed p c) \<le> DAILY_NEURON_LIMIT)"
  by (auto simp add: checkAndUpdateNeuronLimit_def current_total_def usage_key_def Let_def)

lemma check_admitted:
  assumes "fadd (current_total env now) (calculateNeuronsConsumed p c) \<le> DAILY_NEURON_LIMIT"
  shows "allowed (fst (checkAndUpdateNeuronLimit env now p c))"
    and "remaining (fst (checkAndUpdateNeuronLimit env now p c))
           = fsub DAILY_NEURON_LIMIT (fadd (current_total env now) (calculateNeuronsConsumed p c))"
    and "\<not> kv_put_throws (NEURON_LIMITER env) \<Longrightarrow>
           stored_totals (snd (checkAndUpdateNeuronLimit env now p c))
             = (stored_totals env)(usage_key now \<mapsto>
                  (fadd (current_total env now) (calculateNeuronsConsumed p c), 86400))"
    and "kv_put_throws (NEURON_LIMITER env) \<Longrightarrow> snd (checkAndUpdateNeuronLimit env now p c) = env"
  using assms
  by (simp_all add: checkAndUpdateNeuronLimit_def current_total_def usage_key_def Let_def
        kv_put_def stored_totals_def)

lemma check_env:
  "snd (checkAndUpdateNeuronLimit env now p c) =
     (if fadd (current_total env now) (calculateNeuronsConsumed p c) \<le> DAILY_NEURON_LIMIT
         \<and> \<not> kv_put_throws (NEURON_LIMITER env)
      then env\<lparr>NEURON_LIMITER := (NEURON_LIMITER env)\<lparr>kv_entries := (kv_entries (NEURON_LIMITER env))
             (usage_key now \<mapsto> (fadd (current_total env now) (calculateNeuronsConsumed p c), 86400))\<rparr>\<rparr>
      else env)"
  by (simp add: checkAndUpdateNeuronLimit_def current_total_def usage_key_def Let_def kv_put_def)

lemma run_checks_denied:
  "list_all (\<lambda>r. \<not> allowed r) (fst (run_checks env calls)) \<Longrightarrow>
     stored_totals (snd (run_checks env calls)) = stored_totals env"
proof (induction calls arbitrary: env)
  case Nil
  then show ?case by simp
next
  case (Cons call calls)
  obtain now g w p c where call: "call = (now, g, w, p, c)" by (cases call) auto
  let ?env = "env\<lparr>NEURON_LIMITER := (NEURON_LIMITER env)\<lparr>kv_get_throws := g, kv_put_throws := w\<rparr>\<rparr>"
  let ?r = "checkAndUpdateNeuronLimit ?env now p c"
  from Cons.prems have d: "\<not> allowed (fst ?r)"
    and rest: "list_all (\<lambda>r. \<not> allowed r) (fst (run_checks (snd ?r) calls))"
    by (simp_all add: call Let_def split_beta)
  from d have "DAILY_NEURON_LIMIT < fadd (current_total ?env now) (calculateNeuronsConsumed p c)"
    by (simp add: check_allowed_iff not_le)
  then have "snd ?r = ?env" by (rule check_denied(3))
  moreover have "stored_totals (snd (run_checks (snd ?r) calls)) = stored_totals (snd ?r)"
    using rest by (rule Cons.IH)
  ultimately show ?case
    by (simp add: call Let_def split_beta stored_totals_def)
qed

lemma usage_key_day1: "usage_key day1 = js ''neuron_usage:2026-01-01''"
  by (simp add: usage_key_def day1_def js_def)

lemma example_env_sel:
  "kv_put_throws (NEURON_LIMITER (example_env store g w r)) = w"
  "kv_get_throws (NEURON_LIMITER (example_env store g w r)) = g"
  "kv_entries (NEURON_LIMITER (example_env store g w r)) = store"
  "stored_totals (example_env store g w r) = store"
  "AI (example_env store g w r) model input = Inr r"
  by (simp_all add: example_env_def stored_totals_def)

lemma current_stored:
  "current_total (example_env (store_with v) False w r) day1 = parseFloat v"
  by (simp add: current_total_def kv_get_def example_env_sel usage_key_day1 store_with_def)

lemma current_empty: "current_total (example_env Map.empty g w r) now = 0"
  by (simp add: current_total_def kv_get_def example_env_sel)

lemma empty_current: "current_total (empty_env g w) now = 0"
  by (simp add: empty_env_def current_empty)

lemma empty_env_sel:
  "kv_put_throws (NEURON_LIMITER (empty_env g w)) = w"
  "kv_entries (NEURON_LIMITER (empty_env g w)) = Map.empty"
  "stored_totals (empty_env g w) = Map.empty"
  by (simp_all add: empty_env_def example_env_sel)

lemma store_with_update: "(store_with v)(usage_key day1 \<mapsto> (v', 86400)) = store_with v'"
  by (simp add: store_with_def usage_key_day1)

lemma empty_update: "Map.empty(usage_key day1 \<mapsto> (v, 86400)) = store_with v"
  by (simp add: store_with_def usage_key_day1)

lemma set_flags:
  "(example_env store g w r)\<lparr>NEURON_LIMITER :=
      (NEURON_LIMITER (example_env store g w r))\<lparr>kv_get_throws := g', kv_put_throws := w'\<rparr>\<rparr>
     = example_env store g' w' r"
  "(example_env store g w r)\<lparr>NEURON_LIMITER :=
      (NEURON_LIMITER (example_env store g w r))\<lparr>kv_entries := store'\<rparr>\<rparr>
     = example_env store' g w r"
  by (simp_all add: example_env_def)

text \<open>
  Claim C1. Let \<open>x\<close> be the current total the call works with (the number stored under
  the day's key, and 0 when the key is absent or the read raises) and \<open>c\<close> the
  consumption of the call. If the new total, the double sum of \<open>x\<close> and \<open>c\<close>, exceeds the
  daily limit, the call returns \<open>allowed = false\<close> with \<open>remaining = max(0, limit - x)\<close>
  and leaves the environment, and so the store, as it was. Hence a run of calls that are
  all denied leaves the stored totals as they were before the first.
\<close>

theorem denied_call_not_charged:
  "(DAILY_NEURON_LIMIT < fadd (current_total env now) (calculateNeuronsConsumed p c) \<longrightarrow>
      \<not> allowed (fst (checkAndUpdateNeuronLimit env now p c))
      \<and> remaining (fst (checkAndUpdateNeuronLimit env now p c))
          = max 0 (fsub DAILY_NEURON_LIMIT (current_total env now))
      \<and> snd (checkAndUpdateNeuronLimit env now p c) = env)
   \<and> (list_all (\<lambda>r. \<not> allowed r) (fst (run_checks env calls)) \<longrightarrow>
        stored_totals (snd (run_checks env calls)) = stored_totals env)"
  using check_denied [of env now p c] run_checks_denied [of env calls] by blast

text \<open>
  The store holds \<open>0.026668\<close>, the total after a call with the token counts \<open>(1, 0)\<close>.
  The call with \<open>(242519, 17248)\<close> totals \<open>10000.000000000002\<close>, one unit in the last
  place above the limit: it is denied with \<open>remaining = 9999.973332\<close>, as is the much
  larger call after it, and the store is as before.
\<close>

theorem denied_call_not_charged_witness:
  "fadd (current_total (example_env (store_with (7686527671213849 / 288230376151711744)) False False no_answer) day1)
        (calculateNeuronsConsumed 242519 17248) = 5497558138880001 / 549755813888
   \<and> DAILY_NEURON_LIMIT
       < fadd (current_total (example_env (store_with (7686527671213849 / 288230376151711744)) False False no_answer) day1)
              (calculateNeuronsConsumed 242519 17248)
   \<and> \<not> allowed (fst (checkAndUpdateNeuronLimit
          (example_env (store_with (7686527671213849 / 288230376151711744)) False False no_answer)
          day1 242519 17248))
   \<and> remaining (fst (checkAndUpdateNeuronLimit
          (example_env (store_with (7686527671213849 / 288230376151711744)) False False no_answer)
          day1 242519 17248)) = 5497543477991955 / 549755813888
   \<and> list_all (\<lambda>r. \<not> allowed r)
        (fst (run_checks (example_env (store_with (7686527671213849 / 288230376151711744)) False False no_answer)
                [(day1, False, False, 242519, 17248), (day1, False, True, 1000000, 0)]))
   \<and> stored_totals (snd (run_checks
          (example_env (store_with (7686527671213849 / 288230376151711744)) False False no_answer)
          [(day1, False, False, 242519, 17248), (day1, False, True, 1000000, 0)]))
       = store_with (7686527671213849 / 288230376151711744)"
proof -
  let ?x = "7686527671213849 / 288230376151711744 :: rat"
  let ?e = "example_env (store_with ?x) False False no_answer"
  let ?calls = "[(day1, False, False, 242519, 17248), (day1, False, True, 1000000, 0)]"
  have cur: "current_total (example_env (store_with ?x) False w no_answer) day1 = ?x" for w
    by (simp add: current_stored double_eval)
  have t: "fadd (current_total ?e day1) (calculateNeuronsConsumed 242519 17248)
             = 5497558138880001 / 549755813888"
    by (simp only: cur consumed_242519_17248 total_at_cap_above)
  have h1: "DAILY_NEURON_LIMIT < fadd (current_total ?e day1) (calculateNeuronsConsumed 242519 17248)"
    by (simp only: t) (simp add: DAILY_NEURON_LIMIT_def)
  have r: "max 0 (fsub DAILY_NEURON_LIMIT (current_total ?e day1)) = 5497543477991955 / 549755813888"
    by (simp only: cur) (simp add: DAILY_NEURON_LIMIT_def double_eval)
  have t2: "fadd ?x 26668 = 3665225676413307 / 137438953472"
    by (simp add: double_eval)
  have h2: "list_all (\<lambda>r. \<not> allowed r) (fst (run_checks ?e ?calls))"
    by (simp add: Let_def split_beta check_allowed_iff check_env set_flags cur
          consumed_242519_17248 total_at_cap_above consumed_1000000_0 t2 DAILY_NEURON_LIMIT_def)
  have s: "stored_totals ?e = store_with ?x"
    by (simp add: example_env_sel)
  from denied_call_not_charged [of ?e day1 242519 17248 ?calls] h1 h2
  have d: "\<not> allowed (fst (checkAndUpdateNeuronLimit ?e day1 242519 17248))"
    and m: "remaining (fst (checkAndUpdateNeuronLimit ?e day1 242519 17248))
              = max 0 (fsub DAILY_NEURON_LIMIT (current_total ?e day1))"
    and u: "stored_totals (snd (run_checks ?e ?calls)) = stored_totals ?e"
    by blast+
  from t h1 d m [unfolded r] h2 u [unfolded s]
  show ?thesis by blast
qed

text \<open>
  Claim C2, as it holds on the code. If the new total, the double sum of \<open>x\<close> and \<open>c\<close>,
  does not exceed the daily limit, the call returns \<open>allowed = true\<close> with
  \<open>remaining = limit - newTotal\<close>. When the store's \<open>put\<close> does not raise, the store
  afterwards is the store before with the day's key set to the new total, expiring after
  86400 seconds. When \<open>put\<close> raises, the error is caught and the environment is left as it
  was.
\<close>

theorem admitted_call_persists:
  assumes "fadd (current_total env now) (calculateNeuronsConsumed p c) \<le> DAILY_NEURON_LIMIT"
  shows "allowed (fst (checkAndUpdateNeuronLimit env now p c))
         \<and> remaining (fst (checkAndUpdateNeuronLimit env now p c))
             = fsub DAILY_NEURON_LIMIT (fadd (current_total env now) (calculateNeuronsConsumed p c))
         \<and> (\<not> kv_put_throws (NEURON_LIMITER env) \<longrightarrow>
              stored_totals (snd (checkAndUpdateNeuronLimit env now p c))
                = (stored_totals env)(usage_key now \<mapsto>
                     (fadd (current_total env now) (calculateNeuronsConsumed p c), 86400)))
         \<and> (kv_put_throws (NEURON_LIMITER env) \<longrightarrow>
              snd (checkAndUpdateNeuronLimit env now p c) = env)"
  using check_admitted [OF assms] by blast

text \<open>
  On an empty store whose \<open>put\<close> raises, a call within the limit is allowed and
  nothing is stored.
\<close>

theorem admitted_call_put_raises:
  "fadd (current_total (empty_env False True) day1) (calculateNeuronsConsumed 100 50) \<le> DAILY_NEURON_LIMIT
   \<and> allowed (fst (checkAndUpdateNeuronLimit (empty_env False True) day1 100 50))
   \<and> stored_totals (snd (checkAndUpdateNeuronLimit (empty_env False True) day1 100 50)) (usage_key day1)
       = None
   \<and> stored_totals (snd (checkAndUpdateNeuronLimit (empty_env False True) day1 100 50)) (usage_key day1)
       \<noteq> Some (fadd (current_total (empty_env False True) day1) (calculateNeuronsConsumed 100 50), 86400)"
proof -
  have t: "fadd (current_total (empty_env False True) day1) (calculateNeuronsConsumed 100 50)
             = 7266023196306545 / 562949953421312"
    by (simp add: empty_current consumed_100_50 double_eval)
  show ?thesis
    by (simp add: check_allowed_iff check_env t DAILY_NEURON_LIMIT_def empty_env_sel)
qed

text \<open>
  The store holds \<open>1.2000600000000001\<close>. The call with the token counts
  \<open>(242475, 17248)\<close> totals exactly \<open>10000\<close> in doubles: it is admitted with nothing
  remaining, and \<open>10000\<close> is stored. When \<open>put\<close> raises, the store keeps the old total.
\<close>

theorem admitted_call_persists_witness:
  "fadd (current_total (near_cap_env False) day1) (calculateNeuronsConsumed 242475 17248) = 10000
   \<and> fadd (current_total (near_cap_env False) day1) (calculateNeuronsConsumed 242475 17248)
       \<le> DAILY_NEURON_LIMIT
   \<and> allowed (fst (checkAndUpdateNeuronLimit (near_cap_env False) day1 242475 17248))
   \<and> remaining (fst (checkAndUpdateNeuronLimit (near_cap_env False) day1 242475 17248)) = 0
   \<and> stored_totals (snd (checkAndUpdateNeuronLimit (near_cap_env False) day1 242475 17248))
       = store_with 10000
   \<and> kv_put_throws (NEURON_LIMITER (near_cap_env True))
   \<and> snd (checkAndUpdateNeuronLimit (near_cap_env True) day1 242475 17248) = near_cap_env True"
proof -
  have cur: "current_total (near_cap_env w) day1 = 2702294884411119 / 2251799813685248" for w
    by (simp add: near_cap_env_def current_stored double_eval)
  have t: "fadd (current_total (near_cap_env w) day1) (calculateNeuronsConsumed 242475 17248) = 10000" for w
    by (simp only: cur consumed_242475_17248 total_at_cap_exact)
  have h: "fadd (current_total (near_cap_env w) day1) (calculateNeuronsConsumed 242475 17248)
             \<le> DAILY_NEURON_LIMIT" for w
    by (simp only: t) (simp add: DAILY_NEURON_LIMIT_def)
  have ok: "\<not> kv_put_throws (NEURON_LIMITER (near_cap_env False))"
    and bad: "kv_put_throws (NEURON_LIMITER (near_cap_env True))"
    and st: "stored_totals (near_cap_env False) = store_with (2702294884411119 / 2251799813685248)"
    by (simp_all add: near_cap_env_def example_env_sel)
  have z: "fsub DAILY_NEURON_LIMIT 10000 = 0"
    by (simp add: DAILY_NEURON_LIMIT_def double_eval)
  from admitted_call_persists [OF h [of False]] admitted_call_persists [OF h [of True]]
    h [of False] ok bad st
  show ?thesis
    by (simp add: t z store_with_update)
qed

lemma check_step:
  "snd (checkAndUpdateNeuronLimit env now p c) = env
   \<or> (fadd (current_total env now) (calculateNeuronsConsumed p c) \<le> DAILY_NEURON_LIMIT
      \<and> stored_totals (snd (checkAndUpdateNeuronLimit env now p c))
          = (stored_totals env)(usage_key now \<mapsto>
               (fadd (current_total env now) (calculateNeuronsConsumed p c), 86400)))"
  by (simp add: check_env stored_totals_def)

lemma check_within_cap:
  assumes "within_cap (stored_totals env)"
  shows "within_cap (stored_totals (snd (checkAndUpdateNeuronLimit env now p c)))"
  using check_step [of env now p c]
proof
  assume "snd (checkAndUpdateNeuronLimit env now p c) = env"
  with assms show ?thesis by simp
next
  assume w: "fadd (current_total env now) (calculateNeuronsConsumed p c) \<le> DAILY_NEURON_LIMIT
      \<and> stored_totals (snd (checkAndUpdateNeuronLimit env now p c))
          = (stored_totals env)(usage_key now \<mapsto>
               (fadd (current_total env now) (calculateNeuronsConsumed p c), 86400))"
  show ?thesis
    unfolding within_cap_def
  proof (intro allI impI)
    fix key v ttl
    assume "stored_totals (snd (checkAndUpdateNeuronLimit env now p c)) key = Some (v, ttl)"
    with w have "(key = usage_key now \<and> v = fadd (current_total env now) (calculateNeuronsConsumed p c))
                 \<or> stored_totals env key = Some (v, ttl)"
      by (auto split: if_splits)
    then show "v \<le> DAILY_NEURON_LIMIT"
      using w assms unfolding within_cap_def by blast
  qed
qed

lemma check_remaining:
  assumes "allowed (fst (checkAndUpdateNeuronLimit env now p c))"
  shows "0 \<le> remaining (fst (checkAndUpdateNeuronLimit env now p c))"
proof -
  from assms have le: "fadd (current_total env now) (calculateNeuronsConsumed p c) \<le> DAILY_NEURON_LIMIT"
    by (simp add: check_allowed_iff)
  then have "0 \<le> DAILY_NEURON_LIMIT - fadd (current_total env now) (calculateNeuronsConsumed p c)"
    by simp
  then have "0 \<le> fsub DAILY_NEURON_LIMIT (fadd (current_total env now) (calculateNeuronsConsumed p c))"
    unfolding fsub_def by (rule round_double_nonneg)
  then show ?thesis by (simp add: check_admitted(2) [OF le])
qed

lemma run_checks_within_cap:
  "within_cap (stored_totals env) \<Longrightarrow>
     within_cap (stored_totals (snd (run_checks env calls)))
     \<and> list_all (\<lambda>r. allowed r \<longrightarrow> 0 \<le> remaining r) (fst (run_checks env calls))"
proof (induction calls arbitrary: env)
  case Nil
  then show ?case by simp
next
  case (Cons call calls)
  obtain now g w p c where call: "call = (now, g, w, p, c)" by (cases call) auto
  let ?env = "env\<lparr>NEURON_LIMITER := (NEURON_LIMITER env)\<lparr>kv_get_throws := g, kv_put_throws := w\<rparr>\<rparr>"
  let ?r = "checkAndUpdateNeuronLimit ?env now p c"
  have "stored_totals ?env = stored_totals env" by (simp add: stored_totals_def)
  with Cons.prems have "within_cap (stored_totals ?env)" by simp
  then have "within_cap (stored_totals (snd ?r))" by (rule check_within_cap)
  then have "within_cap (stored_totals (snd (run_checks (snd ?r) calls)))
     \<and> list_all (\<lambda>r. allowed r \<longrightarrow> 0 \<le> remaining r) (fst (run_checks (snd ?r) calls))"
    by (rule Cons.IH)
  then show ?case
    using check_remaining [of ?env now p c]
    by (simp add: call Let_def split_beta)
qed

lemma absent_or_zero_within_cap:
  assumes "absent_or_zero store"
  shows "within_cap store"
  unfolding within_cap_def
proof (intro allI impI)
  fix key v ttl
  assume "store key = Some (v, ttl)"
  with assms have "v = 0" unfolding absent_or_zero_def by blast
  then show "v \<le> DAILY_NEURON_LIMIT" by (simp add: DAILY_NEURON_LIMIT_def)
qed

text \<open>
  Claim C9. A call either leaves the environment as it was or writes the new total,
  which is then at most the daily limit. So, starting from a store whose daily records
  are absent or zero, after any run of calls no stored total exceeds the limit, and the
  \<open>remaining\<close> of every allowed call is not negative.
\<close>

theorem stored_total_within_cap:
  assumes "absent_or_zero (stored_totals env)"
  shows "(snd (checkAndUpdateNeuronLimit env now p c) = env
          \<or> (fadd (current_total env now) (calculateNeuronsConsumed p c) \<le> DAILY_NEURON_LIMIT
             \<and> stored_totals (snd (checkAndUpdateNeuronLimit env now p c))
                 = (stored_totals env)(usage_key now \<mapsto>
                      (fadd (current_total env now) (calculateNeuronsConsumed p c), 86400))))
         \<and> within_cap (stored_totals (snd (run_checks env calls)))
         \<and> list_all (\<lambda>r. allowed r \<longrightarrow> 0 \<le> remaining r) (fst (run_checks env calls))"
  using check_step [of env now p c]
    run_checks_within_cap [OF absent_or_zero_within_cap [OF assms], of calls]
  by blast

lemma cap_run:
  "map allowed (fst (run_checks (empty_env False False) cap_calls)) = [True, False]"
  "stored_totals (snd (run_checks (empty_env False False) cap_calls))
     = store_with (7686527671213849 / 288230376151711744)"
proof -
  let ?x = "7686527671213849 / 288230376151711744 :: rat"
  have a: "fadd 0 ?x = ?x" and b: "parseFloat ?x = ?x"
    by (simp_all add: double_eval)
  have cur: "current_total (example_env (store_with ?x) False w no_answer) day1 = ?x" for w
    by (simp add: current_stored b)
  have e: "empty_env False False = example_env Map.empty False False no_answer"
    by (simp add: empty_env_def)
  show "map allowed (fst (run_checks (empty_env False False) cap_calls)) = [True, False]"
    by (simp add: e cap_calls_def Let_def split_beta check_allowed_iff check_env set_flags
          example_env_sel current_empty consumed_1_0 a empty_update cur
          consumed_242519_17248 total_at_cap_above DAILY_NEURON_LIMIT_def)
  show "stored_totals (snd (run_checks (empty_env False False) cap_calls))
     = store_with (7686527671213849 / 288230376151711744)"
    by (simp add: e cap_calls_def Let_def split_beta check_allowed_iff check_env set_flags
          example_env_sel current_empty consumed_1_0 a empty_update cur
          consumed_242519_17248 total_at_cap_above DAILY_NEURON_LIMIT_def)
qed

text \<open>
  From the empty store the call with the token counts \<open>(1, 0)\<close> is admitted and stores
  \<open>0.026668\<close>; the call with \<open>(242519, 17248)\<close> would total \<open>10000.000000000002\<close> and is
  denied.
\<close>

theorem stored_total_within_cap_witness:
  "absent_or_zero (stored_totals (empty_env False False))
   \<and> map allowed (fst (run_checks (empty_env False False) cap_calls)) = [True, False]
   \<and> stored_totals (snd (run_checks (empty_env False False) cap_calls))
       = store_with (7686527671213849 / 288230376151711744)
   \<and> within_cap (stored_totals (snd (run_checks (empty_env False False) cap_calls)))
   \<and> list_all (\<lambda>r. allowed r \<longrightarrow> 0 \<le> remaining r)
        (fst (run_checks (empty_env False False) cap_calls))"
proof -
  have h: "absent_or_zero (stored_totals (empty_env False False))"
    by (simp add: absent_or_zero_def empty_env_sel)
  from stored_total_within_cap [OF h, of day1 100 50 cap_calls] h cap_run
  show ?thesis by simp
qed

section \<open>Properties of the handler\<close>

lemma api_ask_gateway_raises:
  assumes "quranData \<noteq> []" "rq_question request = Some question" "question \<noteq> []"
    "length question \<le> 500"
    "AI env MODEL_ID (gateway_input toLowerCase quranData question (ask_language request)) = Inl aiError"
  shows \<open>api_ask toLowerCase quranData env now_limit now request =
           (\<lparr>status = 200,
             body = Answer
               \<lparr>success = False,
                answer = (if ask_language request = js ''id''
                          then js ''Berdasarkan pertanyaan Anda tentang "'' @ question @ js ''", berikut beberapa ayat Al-Quran yang relevan:''
                          else js ''Based on your question about "'' @ question @ js ''", here are some relevant Quran verses:''),
                verses_data = Some (map (\<lambda>v.
                    \<lparr>d_surah_id = surah_id v,
                     d_surah_name = surah_name v,
                     d_surah_name_arabic = surah_name_arabic v,
                     d_verse_id = verse_id v,
                     verse_arabic = verse_text_arabic v,
                     verse_translation = verse_text_translation v,
                     d_reference = reference v\<rparr>) (ask_ranking toLowerCase quranData question)),
                language = Some (ask_language request),
                timestamp = now,
                disclaimer = Some (if ask_language request = js ''id''
                    then js ''AI sedang mengalami gangguan. Hanya menampilkan ayat-ayat Al-Quran yang relevan.''
                    else js ''AI service is currently unavailable. Only displaying relevant Quran verses.''),
                usage = None,
                error = Some (js ''AI service temporarily unavailable''),
                limit_info = None\<rparr>\<rparr>, env)\<close>
  using assms
  by (simp add: api_ask_def Let_def or_string_def gateway_input_def ask_language_def
        ask_system_prompt_def ask_ranking_def)

lemma api_ask_gateway_answers:
  assumes "quranData \<noteq> []" "rq_question request = Some question" "question \<noteq> []"
    "length question \<le> 500"
    "AI env MODEL_ID (gateway_input toLowerCase quranData question (ask_language request)) = Inr aiResponse"
  shows "response_answer (fst (api_ask toLowerCase quranData env now_limit now request)) \<noteq> None"
   and "map_option success (response_answer (fst (api_ask toLowerCase quranData env now_limit now request)))
         = Some (allowed (fst (ask_limit_check toLowerCase quranData env now_limit question
                                 (ask_language request) aiResponse)))"
   and "allowed (fst (ask_limit_check toLowerCase quranData env now_limit question
                        (ask_language request) aiResponse)) \<Longrightarrow>
        map_option answer (response_answer (fst (api_ask toLowerCase quranData env now_limit now request)))
         = Some (or_string (resp_response aiResponse)
             (or_string (resp_content aiResponse) (or_string (resp_answer aiResponse) [])))"
   and "map_option error (response_answer (fst (api_ask toLowerCase quranData env now_limit now request)))
         = Some (if allowed (fst (ask_limit_check toLowerCase quranData env now_limit question
                                    (ask_language request) aiResponse))
                 then None else Some (js ''neuron_limit_exceeded''))"
  using assms
  by (simp_all add: api_ask_def Let_def or_string_def [of "Some question"] gateway_input_def ask_language_def
        ask_system_prompt_def ask_ranking_def ask_limit_check_def split_beta response_answer_def
        formatResponse_def)

lemma no_answer_text_empty:
  "no_answer_text r \<Longrightarrow>
     or_string (resp_response r) (or_string (resp_content r) (or_string (resp_answer r) [])) = []"
  by (auto simp: no_answer_text_def or_string_def)

lemma example_corpus_nonempty: "example_corpus \<noteq> []"
  by (simp add: example_corpus_def)

lemma ask_sabar_facts:
  "rq_question ask_sabar = Some example_question"
  "example_question \<noteq> []"
  "length example_question \<le> 500"
  "ask_language ask_sabar = js ''id''"
  by (simp_all add: ask_sabar_def ask_language_def example_question_def js_def)

lemma no_answer_facts:
  "no_answer_text no_answer"
  "or_number (map_option prompt_tokens (resp_usage no_answer)) a = 100"
  "or_number (map_option completion_tokens (resp_usage no_answer)) b = 50"
  by (simp_all add: no_answer_text_def no_answer_def or_number_def)

lemma total_at_9990:
  "fadd (parseFloat 9990) (7266023196306545 / 562949953421312) = 5499156306518763 / 549755813888"
  by (simp add: double_eval)

lemma total_at_0:
  "fadd 0 (7266023196306545 / 562949953421312) = 7266023196306545 / 562949953421312"
  by (simp add: double_eval)

lemma denied_at_9990:
  "\<not> allowed (fst (ask_limit_check toLowerCase quranData (example_env example_store False False no_answer) day1
         question lang no_answer))"
  by (simp add: ask_limit_check_def check_allowed_iff no_answer_facts example_store_def current_stored
        consumed_100_50 total_at_9990 DAILY_NEURON_LIMIT_def)

lemma allowed_at_0:
  "allowed (fst (ask_limit_check toLowerCase quranData (empty_env False False) day1 question lang no_answer))"
  by (simp add: ask_limit_check_def check_allowed_iff no_answer_facts empty_current consumed_100_50
        total_at_0 DAILY_NEURON_LIMIT_def)

lemma example_ranking:
  "findRelevantVerses toLowerCase_ascii example_corpus (extractKeywords toLowerCase_ascii example_question) 3
     = [\<lparr>surah_id = 2, surah_name = js ''Al-Baqarah'', surah_name_arabic = js ''Al-Baqarah'',
         verse_id = 153, verse_text_arabic = js ''(153)'',
         verse_text_translation = js ''Mintalah pertolongan dengan sabar dan salat.'',
         score = 10, reference = js ''Al-Baqarah (2:153)''\<rparr>,
        \<lparr>surah_id = 2, surah_name = js ''Al-Baqarah'', surah_name_arabic = js ''Al-Baqarah'',
         verse_id = 155, verse_text_arabic = js ''(155)'',
         verse_text_translation = js ''Berilah kabar gembira kepada orang yang SABAR.'',
         score = 5, reference = js ''Al-Baqarah (2:155)''\<rparr>,
        \<lparr>surah_id = 103, surah_name = js ''Al-Asr'', surah_name_arabic = js ''Al-Asr'',
         verse_id = 3, verse_text_arabic = js ''(3)'',
         verse_text_translation = js ''Saling menasihati untuk kesabaran, sabar.'',
         score = 5, reference = js ''Al-Asr (103:3)''\<rparr>]"
  by code_simp

text \<open>
  Claim C6. When the corpus is loaded, the question is present, not empty and at most
  500 characters long, and the gateway call raises, the handler answers with status 200,
  \<open>success = false\<close>, the error \<open>AI service temporarily unavailable\<close> and, as
  \<open>verses_data\<close>, the ranking computed before the call, entry by entry, each with the
  surah number and name, the verse number, the Arabic text, the translation and the
  reference of the ranked verse; so when the ranking is not empty the caller receives
  its verses.
\<close>

theorem gateway_failure_returns_verses:
  assumes "quranData \<noteq> []" "rq_question request = Some question" "question \<noteq> []"
    "length question \<le> 500"
    "AI env MODEL_ID (gateway_input toLowerCase quranData question (ask_language request)) = Inl aiError"
  shows "status (fst (api_ask toLowerCase quranData env now_limit now request)) = 200
    \<and> map_option success (response_answer (fst (api_ask toLowerCase quranData env now_limit now request)))
        = Some False
    \<and> map_option error (response_answer (fst (api_ask toLowerCase quranData env now_limit now request)))
        = Some (Some (js ''AI service temporarily unavailable''))
    \<and> map_option verses_data (response_answer (fst (api_ask toLowerCase quranData env now_limit now request)))
        = Some (Some (map (\<lambda>v.
            \<lparr>d_surah_id = surah_id v,
             d_surah_name = surah_name v,
             d_surah_name_arabic = surah_name_arabic v,
             d_verse_id = verse_id v,
             verse_arabic = verse_text_arabic v,
             verse_translation = verse_text_translation v,
             d_reference = reference v\<rparr>)
            (findRelevantVerses toLowerCase quranData (extractKeywords toLowerCase question) 3)))
    \<and> (findRelevantVerses toLowerCase quranData (extractKeywords toLowerCase question) 3 \<noteq> [] \<longrightarrow>
          map_option verses_data (response_answer (fst (api_ask toLowerCase quranData env now_limit now request)))
            \<noteq> Some (Some []))"
  by (simp add: api_ask_gateway_raises [OF assms] response_answer_def ask_ranking_def)

text \<open>
  On the example corpus the question \<open>Apa itu sabar dan salat?\<close> ranks three verses, and
  when the gateway raises the answer carries the three of them with all their fields.
\<close>

theorem gateway_failure_returns_verses_witness:
  "example_corpus \<noteq> []
   \<and> rq_question ask_sabar = Some example_question
   \<and> example_question \<noteq> []
   \<and> length example_question \<le> 500
   \<and> AI failing_env MODEL_ID
        (gateway_input toLowerCase_ascii example_corpus example_question (ask_language ask_sabar))
       = Inl (js ''gateway timeout'')
   \<and> status (fst (api_ask toLowerCase_ascii example_corpus failing_env day1 day1 ask_sabar)) = 200
   \<and> map_option success
        (response_answer (fst (api_ask toLowerCase_ascii example_corpus failing_env day1 day1 ask_sabar)))
       = Some False
   \<and> map_option error
        (response_answer (fst (api_ask toLowerCase_ascii example_corpus failing_env day1 day1 ask_sabar)))
       = Some (Some (js ''AI service temporarily unavailable''))
   \<and> map_option verses_data
        (response_answer (fst (api_ask toLowerCase_ascii example_corpus failing_env day1 day1 ask_sabar)))
       = Some (Some
          [\<lparr>d_surah_id = 2, d_surah_name = js ''Al-Baqarah'', d_surah_name_arabic = js ''Al-Baqarah'',
            d_verse_id = 153, verse_arabic = js ''(153)'',
            verse_translation = js ''Mintalah pertolongan dengan sabar dan salat.'',
            d_reference = js ''Al-Baqarah (2:153)''\<rparr>,
           \<lparr>d_surah_id = 2, d_surah_name = js ''Al-Baqarah'', d_surah_name_arabic = js ''Al-Baqarah'',
            d_verse_id = 155, verse_arabic = js ''(155)'',
            verse_translation = js ''Berilah kabar gembira kepada orang yang SABAR.'',
            d_reference = js ''Al-Baqarah (2:155)''\<rparr>,
           \<lparr>d_surah_id = 103, d_surah_name = js ''Al-Asr'', d_surah_name_arabic = js ''Al-Asr'',
            d_verse_id = 3, verse_arabic = js ''(3)'',
            verse_translation = js ''Saling menasihati untuk kesabaran, sabar.'',
            d_reference = js ''Al-Asr (103:3)''\<rparr>])"
proof -
  have ai: "AI failing_env model input = Inl (js ''gateway timeout'')" for model input
    by (simp add: failing_env_def)
  from gateway_failure_returns_verses
    [OF example_corpus_nonempty ask_sabar_facts(1-3) ai, of toLowerCase_ascii day1 day1]
  have "status (fst (api_ask toLowerCase_ascii example_corpus failing_env day1 day1 ask_sabar)) = 200"
    and "map_option success
           (response_answer (fst (api_ask toLowerCase_ascii example_corpus failing_env day1 day1 ask_sabar)))
          = Some False"
    and "map_option error
           (response_answer (fst (api_ask toLowerCase_ascii example_corpus failing_env day1 day1 ask_sabar)))
          = Some (Some (js ''AI service temporarily unavailable''))"
    and "map_option verses_data
           (response_answer (fst (api_ask toLowerCase_ascii example_corpus failing_env day1 day1 ask_sabar)))
          = Some (Some (map (\<lambda>v.
              \<lparr>d_surah_id = surah_id v,
               d_surah_name = surah_name v,
               d_surah_name_arabic = surah_name_arabic v,
               d_verse_id = verse_id v,
               verse_arabic = verse_text_arabic v,
               verse_translation = verse_text_translation v,
               d_reference = reference v\<rparr>)
              (findRelevantVerses toLowerCase_ascii example_corpus
                 (extractKeywords toLowerCase_ascii example_question) 3)))"
    by blast+
  then show ?thesis
    unfolding example_ranking
    using example_corpus_nonempty ask_sabar_facts(1-3) ai
    by simp
qed

text \<open>
  Claim C10, as it holds on the code. When the gateway call succeeds and the answer
  has none of the fields \<open>response\<close>, \<open>content\<close>, \<open>answer\<close>, or has them empty: if the
  quota check admits the call, the handler answers \<open>success = true\<close> with the empty
  string as \<open>answer\<close> and no error; if the quota check denies it, the handler answers
  \<open>success = false\<close> with the error \<open>neuron_limit_exceeded\<close>.
\<close>

theorem missing_answer_text_no_failure:
  assumes "quranData \<noteq> []" "rq_question request = Some question" "question \<noteq> []"
    "length question \<le> 500"
    "AI env MODEL_ID (gateway_input toLowerCase quranData question (ask_language request)) = Inr aiResponse"
    "no_answer_text aiResponse"
  shows "(allowed (fst (ask_limit_check toLowerCase quranData env now_limit question
                          (ask_language request) aiResponse)) \<longrightarrow>
            map_option success (response_answer (fst (api_ask toLowerCase quranData env now_limit now request)))
              = Some True
          \<and> map_option answer (response_answer (fst (api_ask toLowerCase quranData env now_limit now request)))
              = Some []
          \<and> map_option error (response_answer (fst (api_ask toLowerCase quranData env now_limit now request)))
              = Some None)
       \<and> (\<not> allowed (fst (ask_limit_check toLowerCase quranData env now_limit question
                            (ask_language request) aiResponse)) \<longrightarrow>
            map_option success (response_answer (fst (api_ask toLowerCase quranData env now_limit now request)))
              = Some False
          \<and> map_option error (response_answer (fst (api_ask toLowerCase quranData env now_limit now request)))
              = Some (Some (js ''neuron_limit_exceeded'')))"
  using api_ask_gateway_answers(2-4) [OF assms(1-5), of now_limit now]
    no_answer_text_empty [OF assms(6)]
  by (simp del: map_option_eq_Some)

text \<open>
  With 9990 neurons already stored for the day and a gateway answer without text that
  reports 100 prompt and 50 completion tokens, the quota check denies the call and the
  answer has \<open>success = false\<close>.
\<close>

theorem missing_answer_quota_denied:
  "example_corpus \<noteq> []
   \<and> rq_question ask_sabar = Some example_question
   \<and> AI (example_env example_store False False no_answer) MODEL_ID
        (gateway_input toLowerCase_ascii example_corpus example_question (ask_language ask_sabar))
       = Inr no_answer
   \<and> no_answer_text no_answer
   \<and> map_option success (response_answer
        (fst (api_ask toLowerCase_ascii example_corpus (example_env example_store False False no_answer)
                day1 day1 ask_sabar)))
       = Some False"
  using api_ask_gateway_answers(2) [OF example_corpus_nonempty ask_sabar_facts(1-3) example_env_sel(5),
      of toLowerCase_ascii example_store False False no_answer day1 day1]
    denied_at_9990 [of toLowerCase_ascii example_corpus example_question "ask_language ask_sabar"]
  by (simp add: example_corpus_nonempty ask_sabar_facts(1) example_env_sel(5) no_answer_facts(1))

theorem missing_answer_text_no_failure_witness:
  "example_corpus \<noteq> []
   \<and> AI (empty_env False False) MODEL_ID
        (gateway_input toLowerCase_ascii example_corpus example_question (ask_language ask_sabar))
       = Inr no_answer
   \<and> no_answer_text no_answer
   \<and> allowed (fst (ask_limit_check toLowerCase_ascii example_corpus (empty_env False False) day1
        example_question (ask_language ask_sabar) no_answer))
   \<and> map_option success (response_answer
        (fst (api_ask toLowerCase_ascii example_corpus (empty_env False False) day1 day1 ask_sabar)))
       = Some True
   \<and> map_option answer (response_answer
        (fst (api_ask toLowerCase_ascii example_corpus (empty_env False False) day1 day1 ask_sabar)))
       = Some []
   \<and> \<not> allowed (fst (ask_limit_check toLowerCase_ascii example_corpus
        (example_env example_store False False no_answer) day1
        example_question (ask_language ask_sabar) no_answer))
   \<and> map_option error (response_answer
        (fst (api_ask toLowerCase_ascii example_corpus (example_env example_store False False no_answer)
                day1 day1 ask_sabar)))
       = Some (Some (js ''neuron_limit_exceeded''))"
proof -
  have ai: "AI (empty_env False False) model input = Inr no_answer" for model input
    by (simp add: empty_env_def example_env_sel(5))
  from missing_answer_text_no_failure
      [OF example_corpus_nonempty ask_sabar_facts(1-3) ai no_answer_facts(1), of toLowerCase_ascii day1 day1]
    missing_answer_text_no_failure
      [OF example_corpus_nonempty ask_sabar_facts(1-3) example_env_sel(5) no_answer_facts(1),
         of toLowerCase_ascii example_store False False day1 day1]
    allowed_at_0 [of toLowerCase_ascii example_corpus example_question "ask_language ask_sabar"]
    denied_at_9990 [of toLowerCase_ascii example_corpus example_question "ask_language ask_sabar"]
  show ?thesis
    by (simp add: example_corpus_nonempty ai no_answer_facts(1))
qed

lemma js_neq_fr_id: "js ''fr'' \<noteq> js ''id''" "js ''en'' \<noteq> js ''id''"
  by (simp_all add: js_def)

text \<open>
  Claim C5 says that a language code other than \<open>id\<close> and \<open>en\<close> gets the \<open>id\<close>
  variant of every template. On the code only the system prompt does: for the code
  \<open>fr\<close>, \<open>createQuranPrompt\<close> returns what it returns for \<open>en\<close>, which is not what it
  returns for \<open>id\<close>, and the fallback message of the handler is the English one.
\<close>

theorem unrecognised_language_gets_english:
  \<open>createQuranPrompt question relevantVerses (js ''fr'') = createQuranPrompt question relevantVerses (js ''en'')
   \<and> createQuranPrompt question relevantVerses (js ''fr'') \<noteq> createQuranPrompt question relevantVerses (js ''id'')
   \<and> ask_system_prompt (js ''fr'') = SYSTEM_PROMPT_id
   \<and> map_option answer (response_answer (fst (api_ask toLowerCase example_corpus failing_env day1 day1
        \<lparr>rq_question = Some (js ''sabar''), rq_language = Some (js ''fr'')\<rparr>)))
       = Some (js ''Based on your question about "sabar", here are some relevant Quran verses:'')\<close>
proof -
  let ?rq = "\<lparr>rq_question = Some (js ''sabar''), rq_language = Some (js ''fr'')\<rparr>"
  have ai: "AI failing_env model input = Inl (js ''gateway timeout'')" for model input
    by (simp add: failing_env_def)
  have a: "createQuranPrompt question relevantVerses (js ''fr'')
             = createQuranPrompt question relevantVerses (js ''en'')"
    by (simp add: createQuranPrompt_def js_neq_fr_id)
  have b: "createQuranPrompt question relevantVerses (js ''fr'')
             \<noteq> createQuranPrompt question relevantVerses (js ''id'')"
    by (simp add: createQuranPrompt_def prompt_plain_id_def prompt_plain_en_def prompt_verses_id_def
          prompt_verses_en_def Let_def js_def)
  have c: "ask_system_prompt (js ''fr'') = SYSTEM_PROMPT_id"
    by (simp add: ask_system_prompt_def SYSTEM_PROMPTS_def js_def)
  have d: "ask_language ?rq = js ''fr''"
    by (simp add: ask_language_def)
  have q: "rq_question ?rq = Some (js ''sabar'')" "js ''sabar'' \<noteq> []" "length (js ''sabar'') \<le> 500"
    by (simp_all add: js_def)
  have \<open>map_option answer (response_answer (fst (api_ask toLowerCase example_corpus failing_env day1 day1 ?rq)))
          = Some (js ''Based on your question about "'' @ js ''sabar'' @ js ''", here are some relevant Quran verses:'')\<close>
    by (simp add: api_ask_gateway_raises [OF example_corpus_nonempty q ai] d js_neq_fr_id response_answer_def)
  then show ?thesis
    using a b c by (simp add: js_def)
qed

end
